theory Spec2Isabelle
  imports Complex_Main "HOL-Library.AList"
begin

section \<open>Python values\<close>

text \<open>
  A Python \<open>str\<close> is a sequence of Unicode code points, so it is modelled as a list of
  naturals: \<open>len\<close>, slicing and \<open>in\<close> then count code points as Python does, and the
  non-ASCII literals of the source can be written down. \<open>asc\<close> turns an ASCII literal
  into such a string.
\<close>

type_synonym pystr = "nat list"

definition asc :: "string \<Rightarrow> pystr" where
  "asc s = map of_char s"

text \<open>
  A Python \<open>dict\<close> keeps its keys in insertion order and holds each key once. It is an
  association list: \<open>map_of d k\<close> reads \<open>d[k]\<close>, and \<open>AList.update k v d\<close> is
  \<open>d[k] = v\<close> (the value is replaced in place when the key is there, the pair is appended
  when it is not).
\<close>

type_synonym pydict = "(pystr \<times> pystr) list"

text \<open>What a Python function hands back when the claim is about its return value.\<close>

datatype pyret = PyNone | PyBool bool


section \<open>\<open>profile_manager.py\<close>: the user profile\<close>

text \<open>
  \<open>class UserProfile\<close>. \<open>name\<close> is \<open>Optional[str]\<close>; the timestamps are the ISO strings of
  \<open>datetime.now()\<close>.
\<close>

record user_profile =
  name :: "pystr option"
  personality_traits :: "pystr list"
  preferences :: pydict
  goals :: "pystr list"
  important_dates :: pydict
  facts :: "pystr list"
  conversation_count :: int
  last_updated :: pystr
  created_at :: pystr

text \<open>\<open>UserProfile()\<close> with no data, created at clock reading \<open>now\<close>.\<close>

definition new_profile :: "pystr \<Rightarrow> user_profile" where
  "new_profile now =
     \<lparr>name = None, personality_traits = [], preferences = [], goals = [],
      important_dates = [], facts = [], conversation_count = 0,
      last_updated = now, created_at = now\<rparr>"

text \<open>
  The content of \<open>self.profile_file\<close>: missing, the JSON of a profile (\<open>to_dict\<close> lists
  every field, so the stored value is the profile), or something \<open>json.load\<close> rejects.
\<close>

datatype file_state = NoFile | Stored user_profile | Unreadable

text \<open>\<open>class ProfileManager\<close>: the profile in memory and the file behind it.\<close>

record profile_manager =
  profile :: user_profile
  disk :: file_state

text \<open>
  What the file system does to one \<open>save_profile\<close> call: everything works, creating the
  directory raises (before the timestamp is touched), or opening or writing the file
  raises and leaves the file in the given state.
\<close>

datatype io_outcome = IoOk | MkdirFails | WriteFails file_state

text \<open>
  \<open>ProfileManager.save_profile\<close>: \<open>mkdir\<close>, refresh \<open>last_updated\<close>, dump the profile;
  any exception is caught and reported as \<open>False\<close>.
\<close>

definition save_profile :: "io_outcome \<Rightarrow> pystr \<Rightarrow> profile_manager \<Rightarrow> bool \<times> profile_manager" where
  "save_profile io now m =
     (case io of
        MkdirFails \<Rightarrow> (False, m)
      | WriteFails d \<Rightarrow> (False, m\<lparr>profile := (profile m)\<lparr>last_updated := now\<rparr>, disk := d\<rparr>)
      | IoOk \<Rightarrow>
          (let p = (profile m)\<lparr>last_updated := now\<rparr>
           in (True, m\<lparr>profile := p, disk := Stored p\<rparr>)))"

text \<open>
  The argument of \<open>update_profile_from_ai\<close>, a dict in the documented format. Every key
  may be missing: a list or dict field is \<open>None\<close> when its key is absent, and \<open>ex_name\<close> is
  \<open>None\<close> when the key is absent or its value is \<open>null\<close>.
\<close>

record extraction =
  ex_name :: "pystr option"
  ex_personality_traits :: "pystr list option"
  ex_preferences :: "pydict option"
  ex_goals :: "pystr list option"
  ex_important_dates :: "pydict option"
  ex_facts :: "pystr list option"

text \<open>
  The loop \<open>for item in new: if item and item not in current: current.append(item);
  updated = True\<close>, with the flag and the list threaded through.
\<close>

fun merge_items :: "pystr list \<Rightarrow> bool \<Rightarrow> pystr list \<Rightarrow> bool \<times> pystr list" where
  "merge_items [] updated cur = (updated, cur)"
| "merge_items (x # xs) updated cur =
     (if x \<noteq> [] \<and> x \<notin> set cur then merge_items xs True (cur @ [x])
      else merge_items xs updated cur)"

text \<open>
  The loop \<open>for key, value in new.items(): if key and value: if key not in current or
  current[key] != value: current[key] = value; updated = True\<close>.
\<close>

fun merge_dict :: "pydict \<Rightarrow> bool \<Rightarrow> pydict \<Rightarrow> bool \<times> pydict" where
  "merge_dict [] updated cur = (updated, cur)"
| "merge_dict ((k, v) # kvs) updated cur =
     (if k \<noteq> [] \<and> v \<noteq> [] \<and> map_of cur k \<noteq> Some v
      then merge_dict kvs True (AList.update k v cur)
      else merge_dict kvs updated cur)"

text \<open>The first block of \<open>update_profile_from_ai\<close>: the name is set only while it is empty.\<close>

definition merge_name :: "pystr option \<Rightarrow> bool \<Rightarrow> pystr option \<Rightarrow> bool \<times> pystr option" where
  "merge_name new updated cur =
     (case new of
        None \<Rightarrow> (updated, cur)
      | Some n \<Rightarrow>
          if n \<noteq> [] \<and> (cur = None \<or> cur = Some []) then (True, Some n) else (updated, cur))"

text \<open>A list block, \<open>if "goals" in ai_extracted_data:\<close> and its loop.\<close>

definition merge_list_field :: "pystr list option \<Rightarrow> bool \<Rightarrow> pystr list \<Rightarrow> bool \<times> pystr list" where
  "merge_list_field new updated cur =
     (case new of None \<Rightarrow> (updated, cur) | Some xs \<Rightarrow> merge_items xs updated cur)"

text \<open>A dict block, \<open>if "preferences" in ai_extracted_data:\<close> and its loop.\<close>

definition merge_dict_field :: "pydict option \<Rightarrow> bool \<Rightarrow> pydict \<Rightarrow> bool \<times> pydict" where
  "merge_dict_field new updated cur =
     (case new of None \<Rightarrow> (updated, cur) | Some kvs \<Rightarrow> merge_dict kvs updated cur)"

text \<open>
  The six blocks of \<open>update_profile_from_ai\<close> in the source's order, up to the final
  \<open>if updated\<close>: the result is the local \<open>updated\<close> and the profile as mutated.
\<close>

definition apply_extraction :: "extraction \<Rightarrow> user_profile \<Rightarrow> bool \<times> user_profile" where
  "apply_extraction e p =
     (let (u1, n) = merge_name (ex_name e) False (name p);
          (u2, ts) = merge_list_field (ex_personality_traits e) u1 (personality_traits p);
          (u3, ps) = merge_dict_field (ex_preferences e) u2 (preferences p);
          (u4, gs) = merge_list_field (ex_goals e) u3 (goals p);
          (u5, ds) = merge_dict_field (ex_important_dates e) u4 (important_dates p);
          (u6, fs) = merge_list_field (ex_facts e) u5 (facts p)
      in (u6, p\<lparr>name := n, personality_traits := ts, preferences := ps, goals := gs,
                important_dates := ds, facts := fs\<rparr>))"

text \<open>
  \<open>ProfileManager.update_profile_from_ai\<close>: merge, then save when something was updated.
  The function has no \<open>return\<close> statement, so the caller gets \<open>None\<close>.
\<close>

definition update_profile_from_ai ::
  "io_outcome \<Rightarrow> pystr \<Rightarrow> extraction \<Rightarrow> profile_manager \<Rightarrow> pyret \<times> profile_manager" where
  "update_profile_from_ai io now e m =
     (let (updated, p) = apply_extraction e (profile m);
          m1 = m\<lparr>profile := p\<rparr>
      in if updated then (PyNone, snd (save_profile io now m1)) else (PyNone, m1))"

text \<open>\<open>ProfileManager.increment_conversation_count\<close>.\<close>

definition increment_conversation_count :: "profile_manager \<Rightarrow> profile_manager" where
  "increment_conversation_count m =
     m\<lparr>profile := (profile m)\<lparr>conversation_count := conversation_count (profile m) + 1\<rparr>\<rparr>"

text \<open>\<open>ProfileManager.should_update_profile\<close>.\<close>

definition should_update_profile :: "profile_manager \<Rightarrow> bool" where
  "should_update_profile m =
     (let count = conversation_count (profile m)
      in if count \<le> 0 then False
         else if count \<le> 20 then count mod 5 = 0
         else if count \<le> 50 then count mod 10 = 0
         else count mod 15 = 0)"

text \<open>A manager whose profile has seen \<open>c\<close> conversations and nothing else.\<close>

definition manager_at :: "int \<Rightarrow> profile_manager" where
  "manager_at c = \<lparr>profile = (new_profile [])\<lparr>conversation_count := c\<rparr>, disk = NoFile\<rparr>"


text \<open>
  The six fields that \<open>update_profile_from_ai\<close> merges agree in two profiles.
\<close>

definition same_fields :: "user_profile \<Rightarrow> user_profile \<Rightarrow> bool" where
  "same_fields p q =
     (name p = name q \<and> personality_traits p = personality_traits q
      \<and> preferences p = preferences q \<and> goals p = goals q
      \<and> important_dates p = important_dates q \<and> facts p = facts q)"

text \<open>
  The extraction is a well-formed Python value: the keys of each of its dicts are unique.
\<close>

definition keys_unique :: "pydict option \<Rightarrow> bool" where
  "keys_unique d = (case d of None \<Rightarrow> True | Some kvs \<Rightarrow> distinct (map fst kvs))"

definition wf_extraction :: "extraction \<Rightarrow> bool" where
  "wf_extraction e = (keys_unique (ex_preferences e) \<and> keys_unique (ex_important_dates e))"

text \<open>
  The invariant of the data model: no trait, goal or fact twice, no preference or date
  key twice.
\<close>

definition profile_inv :: "user_profile \<Rightarrow> bool" where
  "profile_inv p =
     (distinct (personality_traits p) \<and> distinct (goals p) \<and> distinct (facts p)
      \<and> distinct (map fst (preferences p)) \<and> distinct (map fst (important_dates p)))"


text \<open>
  The extraction of the end-to-end scenario, \<open>{"name": "Alex", "goals": ["learn guitar"]}\<close>
  after validation (the other four keys present and empty), an extraction that brings
  nothing, and two clock readings.
\<close>

definition alex_extraction :: extraction where
  "alex_extraction =
     \<lparr>ex_name = Some (asc ''Alex''), ex_personality_traits = Some [], ex_preferences = Some [],
      ex_goals = Some [asc ''learn guitar''], ex_important_dates = Some [], ex_facts = Some []\<rparr>"

definition empty_extraction :: extraction where
  "empty_extraction =
     \<lparr>ex_name = None, ex_personality_traits = Some [], ex_preferences = Some [],
      ex_goals = Some [], ex_important_dates = Some [], ex_facts = Some []\<rparr>"

definition clock1 :: pystr where
  "clock1 = asc ''2025-01-01T10:00:00''"

definition clock2 :: pystr where
  "clock2 = asc ''2025-01-02T10:00:00''"


section \<open>History window\<close>

text \<open>A turn of the conversation, \<open>{"role": \<dots>, "content": \<dots>}\<close> with the optional
  \<open>proactive\<close> mark.\<close>

datatype role = User | Assistant

record turn =
  role :: role
  content :: pystr
  proactive :: bool

text \<open>\<open>s.startswith(p)\<close> and \<open>w in s\<close> on strings.\<close>

fun starts_with :: "pystr \<Rightarrow> pystr \<Rightarrow> bool" where
  "starts_with s [] = True"
| "starts_with [] (p # ps) = False"
| "starts_with (c # cs) (p # ps) = (c = p \<and> starts_with cs ps)"

fun str_contains :: "pystr \<Rightarrow> pystr \<Rightarrow> bool" where
  "str_contains w [] = (w = [])"
| "str_contains w (c # cs) = (starts_with (c # cs) w \<or> str_contains w cs)"

text \<open>
  The code points that \<open>str.split()\<close> and \<open>str.strip()\<close> treat as whitespace: the ASCII
  ones (tab to carriage return, the four separators 28 to 31, space) and the Unicode
  spaces.
\<close>

definition is_space :: "nat \<Rightarrow> bool" where
  "is_space c =
     ((9 \<le> c \<and> c \<le> 13) \<or> (28 \<le> c \<and> c \<le> 32) \<or> c = 133 \<or> c = 160 \<or> c = 5760
      \<or> (8192 \<le> c \<and> c \<le> 8202) \<or> c = 8232 \<or> c = 8233 \<or> c = 8239 \<or> c = 8287
      \<or> c = 12288)"

text \<open>
  \<open>s.split()\<close>: the maximal runs of non-whitespace, in order. \<open>cur\<close> is the word being
  read.
\<close>

fun split_ws :: "pystr \<Rightarrow> pystr \<Rightarrow> pystr list" where
  "split_ws [] cur = (if cur = [] then [] else [cur])"
| "split_ws (c # cs) cur =
     (if is_space c then (if cur = [] then split_ws cs [] else cur # split_ws cs [])
      else split_ws cs (cur @ [c]))"

definition py_split :: "pystr \<Rightarrow> pystr list" where
  "py_split s = split_ws s []"

text \<open>The list \<open>['hello', 'hi', '\<dots>', '\<dots>', 'hey']\<close>; the third and fourth entries are the
  Chinese greetings U+4F60 U+597D and U+55E8.\<close>

definition greeting_words :: "pystr list" where
  "greeting_words = [asc ''hello'', asc ''hi'', [20320, 22909], [21992], asc ''hey'']"

text \<open>
  \<open>get_relevant_history\<close> of \<open>src/api/server.py\<close> and \<open>backend/app/main.py\<close> (the two are the
  same text). \<open>lower\<close> stands for \<open>str.lower\<close>, whose Unicode case tables are the Python
  runtime's: every result below holds for any such function. \<open>'?'\<close> is code point 63 and the
  full-width question mark is 65311 (U+FF1F). \<open>history[-n:]\<close> drops all but the last \<open>n\<close>.
\<close>

definition get_relevant_history :: "(pystr \<Rightarrow> pystr) \<Rightarrow> 'a list \<Rightarrow> pystr \<Rightarrow> 'a list" where
  "get_relevant_history lower history current_message =
     (let message_lower = lower current_message;
          word_count = length (py_split current_message);
          is_greeting = list_ex (\<lambda>word. str_contains word message_lower) greeting_words;
          is_simple = (word_count < 10);
          is_question = (str_contains [63] current_message \<or> str_contains [65311] current_message)
      in if is_greeting \<or> (is_simple \<and> \<not> is_question)
         then (if length history > 3 then drop (length history - 3) history else history)
         else if word_count < 30
         then (if length history > 8 then drop (length history - 8) history else history)
         else (if length history > 15 then drop (length history - 15) history else history))"

text \<open>
  \<open>DesktopPet._get_relevant_history\<close> of \<open>src/main.py\<close>: the same classification, the slices
  taken without the length test.
\<close>

definition desktop_get_relevant_history :: "(pystr \<Rightarrow> pystr) \<Rightarrow> 'a list \<Rightarrow> pystr \<Rightarrow> 'a list" where
  "desktop_get_relevant_history lower conversation_history current_message =
     (let message_lower = lower current_message;
          word_count = length (py_split current_message);
          is_greeting = list_ex (\<lambda>word. str_contains word message_lower) greeting_words;
          is_simple = (word_count < 10);
          is_question = (str_contains [63] current_message \<or> str_contains [65311] current_message)
      in if is_greeting \<or> (is_simple \<and> \<not> is_question)
         then drop (length conversation_history - 3) conversation_history
         else if word_count < 30
         then drop (length conversation_history - 8) conversation_history
         else drop (length conversation_history - 15) conversation_history)"

text \<open>\<open>str.lower\<close> on ASCII text, for the examples.\<close>

definition ascii_lower :: "pystr \<Rightarrow> pystr" where
  "ascii_lower s = map (\<lambda>c. if 65 \<le> c \<and> c \<le> 90 then c + 32 else c) s"

text \<open>
  The selection rule in the words of the specification: "the last \<open>n\<close> turns (or fewer if
  the history is shorter)", chosen by the three predicates.
\<close>

definition last_turns :: "nat \<Rightarrow> 'a list \<Rightarrow> 'a list" where
  "last_turns n history = rev (take n (rev history))"



text \<open>
  Examples: a question of 33 words that contains "this", and histories of five and of two
  turns.
\<close>

definition long_question :: pystr where
  "long_question = asc (''Could you please explain in detail how this particular algorithm works and why '' @
     ''the authors chose it over the other well known alternatives that were available at '' @
     ''the time of writing the paper?'')"

definition user_says :: "string \<Rightarrow> turn" where
  "user_says s = \<lparr>role = User, content = asc s, proactive = False\<rparr>"

definition pet_says :: "string \<Rightarrow> turn" where
  "pet_says s = \<lparr>role = Assistant, content = asc s, proactive = False\<rparr>"

definition five_turns :: "turn list" where
  "five_turns = [user_says ''one'', pet_says ''two'', user_says ''three'', pet_says ''four'',
     user_says ''five'']"



section \<open>\<open>profile_extractor.py\<close>: extracting the profile\<close>

text \<open>
  What \<open>json.loads\<close> returns: \<open>None\<close>, a bool, a number (an int or a finite float by its
  value; \<open>NaN\<close> and the infinities apart), a string, a list, or a dict with string keys.
\<close>

datatype json =
    JNull
  | JBool bool
  | JNum rat
  | JNonFinite
  | JStr pystr
  | JArr "json list"
  | JObj "(pystr \<times> json) list"

text \<open>The exceptions that can come up while a reply is parsed.\<close>

datatype pyexn = JSONDecodeError | AttributeError | RecursionError

text \<open>Python's truth value of such a value.\<close>

definition truthy :: "json \<Rightarrow> bool" where
  "truthy v =
     (case v of
        JNull \<Rightarrow> False
      | JBool b \<Rightarrow> b
      | JNum x \<Rightarrow> x \<noteq> 0
      | JNonFinite \<Rightarrow> True
      | JStr s \<Rightarrow> s \<noteq> []
      | JArr xs \<Rightarrow> xs \<noteq> []
      | JObj kvs \<Rightarrow> kvs \<noteq> [])"

text \<open>
  The dict that \<open>_validate_extraction\<close> and \<open>_get_empty_extraction\<close> build: always the six
  keys; the name is whatever survived the check, the items of the lists and the values of
  the dicts are not inspected.
\<close>

record extracted =
  x_name :: json
  x_personality_traits :: "json list"
  x_preferences :: "(pystr \<times> json) list"
  x_goals :: "json list"
  x_important_dates :: "(pystr \<times> json) list"
  x_facts :: "json list"

text \<open>\<open>ProfileExtractor._get_empty_extraction\<close>.\<close>

definition get_empty_extraction :: extracted where
  "get_empty_extraction =
     \<lparr>x_name = JNull, x_personality_traits = [], x_preferences = [], x_goals = [],
      x_important_dates = [], x_facts = []\<rparr>"

text \<open>
  The type checks of \<open>_validate_extraction\<close> on the result of \<open>data.get(key, default)\<close>
  (\<open>None\<close> here when the key is absent): a list stays, anything else becomes \<open>[]\<close>; a dict
  stays, anything else becomes \<open>{}\<close>; a name that is truthy and not a string becomes \<open>None\<close>.
\<close>

definition as_list :: "json option \<Rightarrow> json list" where
  "as_list v = (case v of Some (JArr xs) \<Rightarrow> xs | _ \<Rightarrow> [])"

definition as_dict :: "json option \<Rightarrow> (pystr \<times> json) list" where
  "as_dict v = (case v of Some (JObj kvs) \<Rightarrow> kvs | _ \<Rightarrow> [])"

definition as_name :: "json option \<Rightarrow> json" where
  "as_name v =
     (case v of
        None \<Rightarrow> JNull
      | Some (JStr s) \<Rightarrow> JStr s
      | Some x \<Rightarrow> if truthy x then JNull else x)"

text \<open>
  \<open>ProfileExtractor._validate_extraction\<close>. Only a dict has \<open>get\<close>: on any other value the
  first \<open>data.get\<close> raises \<open>AttributeError\<close>.
\<close>

definition validate_extraction :: "json \<Rightarrow> pyexn + extracted" where
  "validate_extraction data =
     (case data of
        JObj kvs \<Rightarrow>
          Inr \<lparr>x_name = as_name (map_of kvs (asc ''name'')),
               x_personality_traits = as_list (map_of kvs (asc ''personality_traits'')),
               x_preferences = as_dict (map_of kvs (asc ''preferences'')),
               x_goals = as_list (map_of kvs (asc ''goals'')),
               x_important_dates = as_dict (map_of kvs (asc ''important_dates'')),
               x_facts = as_list (map_of kvs (asc ''facts''))\<rparr>
      | _ \<Rightarrow> Inl AttributeError)"

text \<open>\<open>s.strip()\<close> and \<open>s.endswith(p)\<close>.\<close>

definition py_strip :: "pystr \<Rightarrow> pystr" where
  "py_strip s = rev (dropWhile is_space (rev (dropWhile is_space s)))"

definition ends_with :: "pystr \<Rightarrow> pystr \<Rightarrow> bool" where
  "ends_with s p = starts_with (rev s) (rev p)"

text \<open>
  \<open>re.search(r'\{[^{}]*(?:\{[^{}]*\}[^{}]*)*\}', response, re.DOTALL)\<close>: the leftmost match.
  From an opening brace (code point 123) the pattern reads on through non-brace characters
  and through groups \<open>{\<dots>}\<close> without braces inside, up to the first closing brace (125)
  outside a group; a second opening brace inside a group, or the end of the text, makes
  the attempt at this position fail, and the search moves on to the next position.
  \<open>inner\<close> tells whether a group is open; \<open>acc\<close> is the matched text, reversed.
\<close>

fun match_braces :: "bool \<Rightarrow> pystr \<Rightarrow> pystr \<Rightarrow> pystr option" where
  "match_braces inner [] acc = None"
| "match_braces inner (c # cs) acc =
     (if c = 125 then (if inner then match_braces False cs (c # acc) else Some (rev (c # acc)))
      else if c = 123 then (if inner then None else match_braces True cs (c # acc))
      else match_braces inner cs (c # acc))"

fun search_balanced :: "pystr \<Rightarrow> pystr option" where
  "search_balanced [] = None"
| "search_balanced (c # cs) =
     (if c = 123
      then (case match_braces False cs [c] of
              Some m \<Rightarrow> Some m
            | None \<Rightarrow> search_balanced cs)
      else search_balanced cs)"

text \<open>
  \<open>re.search(r'\{.*\}', response, re.DOTALL)\<close>: from the first opening brace to the last
  closing brace after it.
\<close>

definition search_greedy :: "pystr \<Rightarrow> pystr option" where
  "search_greedy s =
     (let from_open = dropWhile (\<lambda>c. c \<noteq> 123) s;
          m = rev (dropWhile (\<lambda>c. c \<noteq> 125) (rev from_open))
      in if m = [] then None else Some m)"

text \<open>
  The first part of \<open>_parse_json_response\<close>: strip, drop a leading \<open>```json\<close> or \<open>```\<close>, drop a
  trailing \<open>```\<close>, strip again.
\<close>

definition strip_fences :: "pystr \<Rightarrow> pystr" where
  "strip_fences response =
     (let r1 = py_strip response;
          r2 = (if starts_with r1 (asc ''```json'') then drop 7 r1
                else if starts_with r1 (asc ''```'') then drop 3 r1
                else r1);
          r3 = (if ends_with r2 (asc ''```'') then take (length r2 - 3) r2 else r2)
      in py_strip r3)"

text \<open>
  \<open>ProfileExtractor._parse_json_response\<close>. \<open>loads\<close> stands for \<open>json.loads\<close>, a function of
  the Python library: it returns a value or raises, \<open>JSONDecodeError\<close> on text that is not
  JSON. The response is \<open>None\<close> when a provider hands back \<open>None\<close>. Only
  \<open>JSONDecodeError\<close> is caught here; the greedy pattern is tried only when the balanced
  pattern matched and its match did not decode.
\<close>

definition parse_json_response :: "(pystr \<Rightarrow> pyexn + json) \<Rightarrow> pystr option \<Rightarrow> pyexn + extracted" where
  "parse_json_response loads response =
     (case response of
        None \<Rightarrow> Inr get_empty_extraction
      | Some resp \<Rightarrow>
          if resp = [] \<or> py_strip resp = [] then Inr get_empty_extraction
          else
            (let r = strip_fences resp
             in case loads r of
                  Inr extracted_data \<Rightarrow> validate_extraction extracted_data
                | Inl JSONDecodeError \<Rightarrow>
                    (case search_balanced r of
                       None \<Rightarrow> Inr get_empty_extraction
                     | Some m \<Rightarrow>
                         (case loads m of
                            Inr extracted_data \<Rightarrow> validate_extraction extracted_data
                          | Inl JSONDecodeError \<Rightarrow>
                              (case search_greedy r of
                                 None \<Rightarrow> Inr get_empty_extraction
                               | Some m2 \<Rightarrow>
                                   (case loads m2 of
                                      Inr extracted_data \<Rightarrow> validate_extraction extracted_data
                                    | Inl JSONDecodeError \<Rightarrow> Inr get_empty_extraction
                                    | Inl e \<Rightarrow> Inl e))
                          | Inl e \<Rightarrow> Inl e))
                | Inl e \<Rightarrow> Inl e))"


text \<open>\<open>sep.join(xs)\<close>.\<close>

fun py_join :: "pystr \<Rightarrow> pystr list \<Rightarrow> pystr" where
  "py_join sep [] = []"
| "py_join sep [x] = x"
| "py_join sep (x # y # ys) = x @ sep @ py_join sep (y # ys)"

text \<open>\<open>ProfileExtractor._format_messages\<close>.\<close>

definition format_messages :: "turn list \<Rightarrow> pystr" where
  "format_messages messages =
     py_join [10, 10]
       (map (\<lambda>msg. (if role msg = User then asc ''User'' else asc ''Assistant'') @ asc '': '' @ content msg)
          messages)"

text \<open>The two prompts of \<open>extract_user_info\<close>, line by line.\<close>

definition extraction_system_prompt :: pystr where
  "extraction_system_prompt = py_join [10]
     [asc ''You are a user profile analyst. Extract key information about the user from the conversation.'',
      [],
      asc ''CRITICAL: You MUST return ONLY a valid JSON object, with no additional text, explanations, or markdown formatting. Do not include ```json or ``` markers.'',
      [],
      asc ''Return ONLY this JSON structure (use null for missing fields):'',
      asc ''{'',
      asc ''  \"name\": \"user's name or null\",'',
      asc ''  \"personality_traits\": [\"trait1\", \"trait2\"],'',
      asc ''  \"preferences\": {\"category\": \"preference\"},'',
      asc ''  \"goals\": [\"goal1\", \"goal2\"],'',
      asc ''  \"important_dates\": {\"event\": \"date\"},'',
      asc ''  \"facts\": [\"fact1\", \"fact2\"]'',
      asc ''}'',
      [],
      asc ''Important:'',
      asc ''- Return ONLY the JSON object, nothing else'',
      asc ''- Only extract information explicitly mentioned by the user'',
      asc ''- Do not infer or assume information'',
      asc ''- Use empty arrays [] and empty objects {} if no information found'',
      asc ''- Use null for missing string fields'',
      asc ''- Ensure valid JSON format (no trailing commas, proper quotes)'',
      asc ''- For personality_traits, extract observable traits from the conversation'',
      asc ''- For preferences, extract specific likes/dislikes mentioned'',
      asc ''- For goals, extract stated goals or aspirations'',
      asc ''- For important_dates, extract dates mentioned (birthday, deadlines, etc.)'',
      asc ''- For facts, extract other notable information about the user'']"

definition extraction_user_prompt :: "pystr \<Rightarrow> pystr" where
  "extraction_user_prompt conversation_text = py_join [10]
     [asc ''Analyze this conversation and extract user information:'',
      [],
      conversation_text,
      [],
      asc ''Return ONLY the JSON object. Do not include any explanations, markdown formatting, or additional text. Just the JSON.'']"

text \<open>
  The model capability, \<open>ai_provider.generate_response(messages, system_prompt,
  max_tokens)\<close>: it returns the response text or raises an exception with a message.
  \<open>max_tokens\<close> is \<open>None\<close> when the caller leaves it out.
\<close>

datatype reply = Raises pystr | Returns pystr

type_synonym provider = "turn list \<Rightarrow> pystr \<Rightarrow> int option \<Rightarrow> reply"

text \<open>The \<open>messages\<close> argument of the call in \<open>extract_user_info\<close>.\<close>

definition extraction_request :: "turn list \<Rightarrow> turn list" where
  "extraction_request recent_messages =
     [\<lparr>role = User, content = extraction_user_prompt (format_messages recent_messages),
       proactive = False\<rparr>]"

text \<open>
  \<open>ProfileExtractor.extract_user_info\<close>: the call and the parsing sit in one
  \<open>try\<close> whose \<open>except Exception\<close> returns the empty extraction, so every exception of the
  body is a branch that yields it.
\<close>

definition extract_user_info :: "provider \<Rightarrow> (pystr \<Rightarrow> pyexn + json) \<Rightarrow> turn list \<Rightarrow> extracted" where
  "extract_user_info generate_response loads recent_messages =
     (case generate_response (extraction_request recent_messages) extraction_system_prompt None of
        Raises message \<Rightarrow> get_empty_extraction
      | Returns response \<Rightarrow>
          (case parse_json_response loads (Some response) of
             Inl e \<Rightarrow> get_empty_extraction
           | Inr extracted_data \<Rightarrow> extracted_data))"




text \<open>A provider that gives the same reply to every request, for the examples.\<close>

definition always_replies :: "reply \<Rightarrow> provider" where
  "always_replies r messages system_prompt max_tokens = r"

text \<open>
  A decoder to put in the place of \<open>loads\<close> in the examples. It reads the JSON texts made
  of objects, arrays, strings without escapes, integers and the literals \<open>null\<close>, \<open>true\<close>,
  \<open>false\<close>, with JSON whitespace between the tokens, and builds a dict as \<open>json.loads\<close> does
  (a repeated key keeps its first place and its last value); every other text is a decode
  error, which is what \<open>json.loads\<close> answers except on texts with escapes, fractions,
  exponents or the literals \<open>NaN\<close> and \<open>Infinity\<close>. The first argument bounds the number of nested and successive values by the
  length of a list; the text itself, one element longer, is always enough. The general
  results do not depend on this decoder.
\<close>

definition json_ws :: "nat \<Rightarrow> bool" where
  "json_ws c = (c = 32 \<or> c = 9 \<or> c = 10 \<or> c = 13)"

fun read_string :: "pystr \<Rightarrow> pystr \<Rightarrow> (pystr \<times> pystr) option" where
  "read_string [] acc = None"
| "read_string (c # cs) acc =
     (if c = 34 then Some (rev acc, cs)
      else if c = 92 \<or> c < 32 then None
      else read_string cs (c # acc))"

definition is_digit :: "nat \<Rightarrow> bool" where
  "is_digit c = (48 \<le> c \<and> c \<le> 57)"

definition digits_value :: "pystr \<Rightarrow> int" where
  "digits_value ds = foldl (\<lambda>a d. 10 * a + (int d - 48)) 0 ds"

definition read_number :: "pystr \<Rightarrow> (json \<times> pystr) option" where
  "read_number s =
     (let neg = (s \<noteq> [] \<and> hd s = 45);
          body = (if neg then tl s else s);
          ds = takeWhile is_digit body;
          rest = dropWhile is_digit body
      in if ds = [] \<or> (length ds > 1 \<and> hd ds = 48) then None
         else if rest \<noteq> [] \<and> (hd rest = 46 \<or> hd rest = 101 \<or> hd rest = 69) then None
         else Some (JNum (of_int (if neg then - digits_value ds else digits_value ds)), rest))"

fun read_value :: "pystr \<Rightarrow> pystr \<Rightarrow> (json \<times> pystr) option"
  and read_elems :: "pystr \<Rightarrow> pystr \<Rightarrow> json list \<Rightarrow> (json \<times> pystr) option"
  and read_members :: "pystr \<Rightarrow> pystr \<Rightarrow> (pystr \<times> json) list \<Rightarrow> (json \<times> pystr) option" where
  "read_value [] s = None"
| "read_value (f # n) s =
     (case dropWhile json_ws s of
        [] \<Rightarrow> None
      | c # cs \<Rightarrow>
          if c = 123 then
            (case dropWhile json_ws cs of
               [] \<Rightarrow> None
             | d # ds \<Rightarrow> if d = 125 then Some (JObj [], ds) else read_members n (d # ds) [])
          else if c = 91 then
            (case dropWhile json_ws cs of
               [] \<Rightarrow> None
             | d # ds \<Rightarrow> if d = 93 then Some (JArr [], ds) else read_elems n (d # ds) [])
          else if c = 34 then
            (case read_string cs [] of None \<Rightarrow> None | Some (str, r) \<Rightarrow> Some (JStr str, r))
          else if starts_with (c # cs) (asc ''null'') then Some (JNull, drop 4 (c # cs))
          else if starts_with (c # cs) (asc ''true'') then Some (JBool True, drop 4 (c # cs))
          else if starts_with (c # cs) (asc ''false'') then Some (JBool False, drop 5 (c # cs))
          else read_number (c # cs))"
| "read_elems [] s acc = None"
| "read_elems (f # n) s acc =
     (case read_value n s of
        None \<Rightarrow> None
      | Some (v, r) \<Rightarrow>
          (case dropWhile json_ws r of
             [] \<Rightarrow> None
           | c # cs \<Rightarrow>
               if c = 93 then Some (JArr (acc @ [v]), cs)
               else if c = 44 then read_elems n cs (acc @ [v])
               else None))"
| "read_members [] s acc = None"
| "read_members (f # n) s acc =
     (case dropWhile json_ws s of
        [] \<Rightarrow> None
      | q # qs \<Rightarrow>
          if q \<noteq> 34 then None
          else
            (case read_string qs [] of
               None \<Rightarrow> None
             | Some (key, r) \<Rightarrow>
                 (case dropWhile json_ws r of
                    [] \<Rightarrow> None
                  | c # cs \<Rightarrow>
                      if c \<noteq> 58 then None
                      else
                        (case read_value n cs of
                           None \<Rightarrow> None
                         | Some (v, r2) \<Rightarrow>
                             (case dropWhile json_ws r2 of
                                [] \<Rightarrow> None
                              | e # es \<Rightarrow>
                                  if e = 125 then Some (JObj (AList.update key v acc), es)
                                  else if e = 44 then read_members n es (AList.update key v acc)
                                  else None)))))"

definition json_loads :: "pystr \<Rightarrow> pyexn + json" where
  "json_loads s =
     (case read_value (0 # s) s of
        None \<Rightarrow> Inl JSONDecodeError
      | Some (v, r) \<Rightarrow> if dropWhile json_ws r = [] then Inr v else Inl JSONDecodeError)"




section \<open>Assembling the system prompt\<close>

text \<open>
  The character configuration, the dict of \<open>load_character_config\<close>: every field is a
  string, empty when unset.
\<close>

record character_config =
  cfg_personality :: pystr
  cfg_backstory :: pystr
  cfg_traits :: pystr
  cfg_preferences :: pystr
  cfg_output_example :: pystr
  cfg_worldview_background :: pystr
  cfg_worldview_setting :: pystr
  cfg_notes :: pystr

text \<open>What the prompt builder reads from the configuration manager.\<close>

record config_manager =
  load_character_config :: character_config
  load_personality :: "pystr option"
  get_max_tokens :: int

text \<open>
  A result of \<open>search_relevant_conversations\<close>. The relevance score is a float in the source;
  it is a real number here, which compares with the threshold as the float does except
  within rounding distance of it.
\<close>

record memory_hit =
  user_message :: pystr
  ai_response :: pystr
  timestamp :: pystr
  relevance_score :: real

text \<open>
  The vector store as the prompt builder uses it: \<open>search_relevant_conversations(query,
  n_results)\<close>, which catches its own exceptions and so always returns a list.
\<close>

type_synonym vector_store = "pystr \<Rightarrow> nat \<Rightarrow> memory_hit list"

text \<open>
  The per-user \<open>instance\<close> dict of \<open>get_user_instance\<close>; the vector store and the profile
  manager are \<open>None\<close> when their initialisation failed. The provider is represented by the
  number of calls made to it so far.
\<close>

record user_instance =
  config_manager :: config_manager
  vector_store :: "vector_store option"
  profile_manager :: "profile_manager option"
  ai_provider :: nat
  conversation_history :: "turn list"

text \<open>The warning sign that opens the headers, U+26A0 U+FE0F.\<close>

definition warning_sign :: pystr where
  "warning_sign = [9888, 65039]"

text \<open>
  Step 1 of \<open>build_system_prompt\<close>: the parts for \<open>output_example\<close> and \<open>notes\<close>, and the flag
  \<open>has_output_example\<close>.
\<close>

definition directive_parts :: "character_config \<Rightarrow> pystr list \<times> bool" where
  "directive_parts character_config =
     (let (parts, has_output_example) =
            (if cfg_output_example character_config \<noteq> []
             then ([warning_sign @
                      asc '' CRITICAL - Output Example & Performance Requirements (MUST FOLLOW EXACTLY):'' @
                      [10] @ cfg_output_example character_config], True)
             else ([], False))
      in if cfg_notes character_config \<noteq> []
         then (if has_output_example
               then (parts @ [warning_sign @ asc '' CRITICAL - Additional Notes (MUST FOLLOW):'' @
                                [10] @ cfg_notes character_config], has_output_example)
               else (parts @ [warning_sign @ asc '' CRITICAL - Response Guidelines (MUST FOLLOW):'' @
                                [10] @ cfg_notes character_config], True))
         else (parts, has_output_example))"

text \<open>\<open>if character_config.get(key): parts.append(f"Label: {character_config[key]}")\<close>.\<close>

definition labelled :: "string \<Rightarrow> pystr \<Rightarrow> pystr list" where
  "labelled label text = (if text \<noteq> [] then [asc label @ text] else [])"

text \<open>Step 2: the character description.\<close>

definition character_parts :: "character_config \<Rightarrow> pystr list" where
  "character_parts character_config =
     labelled ''Personality: '' (cfg_personality character_config)
     @ labelled ''Backstory: '' (cfg_backstory character_config)
     @ labelled ''Traits: '' (cfg_traits character_config)
     @ labelled ''Preferences: '' (cfg_preferences character_config)
     @ labelled ''Worldview Background: '' (cfg_worldview_background character_config)
     @ labelled ''Worldview Setting: '' (cfg_worldview_setting character_config)"

text \<open>
  The fallback of step 2: when no part so far contains \<open>Personality:\<close>, the simple
  personality of \<open>load_personality()\<close>, or the default sentence.
\<close>

definition fallback_parts :: "pystr list \<Rightarrow> pystr option \<Rightarrow> pystr list" where
  "fallback_parts parts personality =
     (if \<not> list_ex (\<lambda>p. str_contains (asc ''Personality:'') p) parts
      then (case personality of
              None \<Rightarrow> [asc ''You are a friendly and supportive AI companion.'']
            | Some text \<Rightarrow>
                if text \<noteq> [] then [asc ''Personality: '' @ text]
                else [asc ''You are a friendly and supportive AI companion.''])
      else [])"

text \<open>
  Step 3: the profile summary. \<open>backend/app/main.py\<close> lists the first five facts as well
  (\<open>with_facts\<close>); \<open>src/api/server.py\<close> and \<open>src/main.py\<close> do not.
\<close>

definition profile_parts :: "bool \<Rightarrow> profile_manager option \<Rightarrow> pystr list" where
  "profile_parts with_facts manager =
     (case manager of
        None \<Rightarrow> []
      | Some m \<Rightarrow>
          (let p = profile m;
               profile_summary =
                 (case name p of
                    None \<Rightarrow> []
                  | Some n \<Rightarrow> if n \<noteq> [] then [asc ''User: '' @ n] else [])
                 @ (if personality_traits p \<noteq> []
                    then [asc ''Traits: '' @ py_join (asc '', '') (take 3 (personality_traits p))]
                    else [])
                 @ (if goals p \<noteq> []
                    then [asc ''Goals: '' @ py_join (asc '', '') (take 3 (goals p))]
                    else [])
                 @ (if with_facts \<and> facts p \<noteq> []
                    then [asc ''Important facts: '' @ py_join (asc '', '') (take 5 (facts p))]
                    else [])
           in if profile_summary \<noteq> [] then [py_join (asc '' | '') profile_summary] else []))"

text \<open>The content of the last user turn, \<open>""\<close> when there is none.\<close>

definition last_user_message :: "turn list \<Rightarrow> pystr" where
  "last_user_message history =
     (case filter (\<lambda>msg. role msg = User) (rev history) of
        [] \<Rightarrow> []
      | msg # earlier \<Rightarrow> content msg)"

text \<open>
  Step 4: the retrieved memory. The threshold is the literal of the source, \<open>0.6\<close> in
  \<open>backend/app/main.py\<close> and \<open>0.7\<close> in \<open>src/api/server.py\<close> and \<open>src/main.py\<close>.
\<close>

definition memory_text :: "memory_hit \<Rightarrow> pystr" where
  "memory_text conv =
     asc ''Relevant memory:'' @ [10] @ asc ''U: '' @ take 100 (user_message conv) @ asc ''...'' @
     [10] @ asc ''A: '' @ take 100 (ai_response conv) @ asc ''...''"

definition memory_parts :: "real \<Rightarrow> bool \<Rightarrow> vector_store option \<Rightarrow> turn list \<Rightarrow> pystr list" where
  "memory_parts threshold include_rag store history =
     (case store of
        None \<Rightarrow> []
      | Some search_relevant_conversations \<Rightarrow>
          if include_rag \<and> history \<noteq> [] \<and> last_user_message history \<noteq> []
          then (let relevant_convs = search_relevant_conversations (last_user_message history) 2;
                    high_relevance_convs =
                      filter (\<lambda>conv. relevance_score conv > threshold) relevant_convs
                in case high_relevance_convs of
                     [] \<Rightarrow> []
                   | conv # others \<Rightarrow> [memory_text conv])
          else [])"

text \<open>Step 5: the default guidelines.\<close>

definition guideline_parts :: "bool \<Rightarrow> int \<Rightarrow> pystr list" where
  "guideline_parts has_output_example max_tokens =
     (if \<not> has_output_example
      then (let (target_sentences, target_words) =
                  (if max_tokens \<le> 100 then (asc ''1-2'', asc ''30-50'')
                   else if max_tokens \<le> 200 then (asc ''2-3'', asc ''50-80'')
                   else (asc ''2-4'', asc ''80-120''))
            in [asc ''Guidelines:'' @ [10] @
                asc ''- Use the user profile information naturally in conversation'' @ [10] @
                asc ''- Reference relevant past conversations when appropriate'' @ [10] @
                asc ''- Stay consistent with your personality'' @ [10] @
                asc ''- Be proactive and caring'' @ [10] @
                asc ''- IMPORTANT: Keep responses concise ('' @ target_sentences @
                asc '' sentences, '' @ target_words @
                asc '' words). Express your complete thought in these few sentences - be brief but complete. Do not start a long response that gets cut off.''])
      else [])"

text \<open>
  The list \<open>parts\<close> at the end of \<open>build_system_prompt\<close>, built in the order of the source.
\<close>

definition prompt_parts :: "real \<Rightarrow> bool \<Rightarrow> user_instance \<Rightarrow> bool \<Rightarrow> pystr list" where
  "prompt_parts threshold with_facts inst include_rag =
     (let character_config = load_character_config (config_manager inst);
          (parts1, has_output_example) = directive_parts character_config;
          parts2 = parts1 @ character_parts character_config;
          parts3 = parts2 @ fallback_parts parts2 (load_personality (config_manager inst));
          parts4 = parts3 @ profile_parts with_facts (profile_manager inst);
          parts5 = parts4 @ memory_parts threshold include_rag (vector_store inst)
                              (conversation_history inst)
      in parts5 @ guideline_parts has_output_example (get_max_tokens (config_manager inst)))"

text \<open>\<open>build_system_prompt\<close> of \<open>src/api/server.py\<close> and of \<open>backend/app/main.py\<close>.\<close>

definition build_system_prompt :: "user_instance \<Rightarrow> bool \<Rightarrow> pystr" where
  "build_system_prompt inst include_rag =
     py_join [10, 10] (prompt_parts (7 / 10) False inst include_rag)"

definition backend_build_system_prompt :: "user_instance \<Rightarrow> bool \<Rightarrow> pystr" where
  "backend_build_system_prompt inst include_rag =
     py_join [10, 10] (prompt_parts (6 / 10) True inst include_rag)"

text \<open>
  The kinds of section, told by the label they open with: a directive under the
  \<open>CRITICAL\<close> marker, the default-guidelines block, the retrieved memory.
\<close>

definition is_critical_section :: "pystr \<Rightarrow> bool" where
  "is_critical_section p = starts_with p (warning_sign @ asc '' CRITICAL'')"

definition is_guidelines_block :: "pystr \<Rightarrow> bool" where
  "is_guidelines_block p = starts_with p (asc ''Guidelines:'')"

definition is_memory_section :: "pystr \<Rightarrow> bool" where
  "is_memory_section p = starts_with p (asc ''Relevant memory:'')"

text \<open>
  The number of places at which the word \<open>w\<close> occurs in a text. For a word that cannot
  overlap itself this is \<open>s.count(w)\<close>.
\<close>

fun count_occ :: "pystr \<Rightarrow> pystr \<Rightarrow> nat" where
  "count_occ w [] = 0"
| "count_occ w (c # cs) = (if starts_with (c # cs) w then 1 else 0) + count_occ w cs"

text \<open>
  A word without a newline, a space, a comma, a full stop or a bar: it cannot reach across
  a separator of the prompt or across the end of a label.
\<close>

definition sep_free :: "pystr \<Rightarrow> bool" where
  "sep_free w = (w \<noteq> [] \<and> 10 \<notin> set w \<and> 32 \<notin> set w \<and> 44 \<notin> set w \<and> 46 \<notin> set w \<and> 124 \<notin> set w)"

text \<open>
  The texts that come into the prompt from outside the builder: the fields of the
  character configuration, the simple personality, the name, traits and goals (and facts)
  of the profile, and the two sides of each memory the search returns.
\<close>

definition prompt_inputs :: "bool \<Rightarrow> user_instance \<Rightarrow> pystr list" where
  "prompt_inputs with_facts inst =
     (let c = load_character_config (config_manager inst)
      in [cfg_personality c, cfg_backstory c, cfg_traits c, cfg_preferences c,
          cfg_output_example c, cfg_worldview_background c, cfg_worldview_setting c, cfg_notes c]
         @ (case load_personality (config_manager inst) of None \<Rightarrow> [] | Some t \<Rightarrow> [t])
         @ (case profile_manager inst of
              None \<Rightarrow> []
            | Some m \<Rightarrow>
                (case name (profile m) of None \<Rightarrow> [] | Some n \<Rightarrow> [n])
                @ personality_traits (profile m) @ goals (profile m)
                @ (if with_facts then facts (profile m) else []))
         @ (case vector_store inst of
              None \<Rightarrow> []
            | Some search \<Rightarrow>
                concat (map (\<lambda>conv. [user_message conv, ai_response conv])
                  (search (last_user_message (conversation_history inst)) 2))))"

text \<open>The word occurs in none of the labels of the sections after the directives.\<close>

definition label_free :: "pystr \<Rightarrow> bool" where
  "label_free w =
     list_all (\<lambda>l. count_occ w l = 0)
       [asc ''Personality: '', asc ''Backstory: '', asc ''Traits: '', asc ''Preferences: '',
        asc ''Worldview Background: '', asc ''Worldview Setting: '',
        asc ''You are a friendly and supportive AI companion.'',
        asc ''User: '', asc ''Goals: '', asc ''Important facts: '',
        asc ''Relevant memory:'', asc ''U: '', asc ''A: '']"

text \<open>The word occurs in none of the texts that come from outside.\<close>

definition clean_inputs :: "pystr \<Rightarrow> bool \<Rightarrow> user_instance \<Rightarrow> bool" where
  "clean_inputs w with_facts inst =
     list_all (\<lambda>t. \<not> str_contains w t) (prompt_inputs with_facts inst)"

text \<open>
  Examples: a configuration with only an output example, one whose output example uses
  the word \<open>CRITICAL\<close> itself, one with nothing set, a store that answers every query with
  a hit of score 0.8 (its user snippet 120 characters long) and one of score 0.55, and
  three instances built from them.
\<close>

definition pirate_config :: character_config where
  "pirate_config =
     \<lparr>cfg_personality = [], cfg_backstory = [], cfg_traits = [], cfg_preferences = [],
      cfg_output_example = asc ''Arr, matey!'', cfg_worldview_background = [],
      cfg_worldview_setting = [], cfg_notes = []\<rparr>"

definition critic_config :: character_config where
  "critic_config =
     \<lparr>cfg_personality = [], cfg_backstory = [], cfg_traits = [], cfg_preferences = [],
      cfg_output_example = asc ''Stay CRITICAL of cliches'', cfg_worldview_background = [],
      cfg_worldview_setting = [], cfg_notes = []\<rparr>"

definition plain_config :: character_config where
  "plain_config =
     \<lparr>cfg_personality = [], cfg_backstory = [], cfg_traits = [], cfg_preferences = [],
      cfg_output_example = [], cfg_worldview_background = [],
      cfg_worldview_setting = [], cfg_notes = []\<rparr>"

definition hit_high :: memory_hit where
  "hit_high =
     \<lparr>user_message = replicate 120 97, ai_response = asc ''Noted.'',
      timestamp = clock1, relevance_score = 8 / 10\<rparr>"

definition hit_low :: memory_hit where
  "hit_low =
     \<lparr>user_message = asc ''What is the weather?'', ai_response = asc ''Sunny.'',
      timestamp = clock2, relevance_score = 55 / 100\<rparr>"

definition two_hit_store :: vector_store where
  "two_hit_store query n_results = [hit_high, hit_low]"

definition pirate_instance :: user_instance where
  "pirate_instance =
     \<lparr>config_manager =
        \<lparr>load_character_config = pirate_config, load_personality = None, get_max_tokens = 250\<rparr>,
      vector_store = None, profile_manager = None, ai_provider = 0,
      conversation_history = []\<rparr>"

definition critic_instance :: user_instance where
  "critic_instance =
     \<lparr>config_manager =
        \<lparr>load_character_config = critic_config, load_personality = None, get_max_tokens = 250\<rparr>,
      vector_store = None, profile_manager = None, ai_provider = 0,
      conversation_history = []\<rparr>"

definition memory_instance :: user_instance where
  "memory_instance =
     \<lparr>config_manager =
        \<lparr>load_character_config = plain_config, load_personality = None, get_max_tokens = 150\<rparr>,
      vector_store = Some two_hit_store, profile_manager = None, ai_provider = 0,
      conversation_history = five_turns\<rparr>"


section \<open>One turn of the conversation\<close>

text \<open>
  What a turn meets outside the program: the provider (its answer to the \<open>n\<close>-th call made
  to it, given the arguments of the call), \<open>json.loads\<close>, \<open>str.lower\<close>, the embedding index
  behind \<open>add_conversation\<close>, the file system under \<open>save_profile\<close> and under
  \<open>_save_json\<close>, and the clock. The last field is not of that kind: it is the manager
  that \<open>update_profile_from_ai\<close> leaves when the extracted dict holds a value that a
  profile over text cannot hold (see \<open>profile_fields\<close> below), which is beyond this model
  and so left open.
\<close>

record env =
  env_generate :: "nat \<Rightarrow> provider"
  env_loads :: "pystr \<Rightarrow> pyexn + json"
  env_lower :: "pystr \<Rightarrow> pystr"
  env_add_conversation :: "vector_store \<Rightarrow> pystr \<Rightarrow> pystr \<Rightarrow> vector_store"
  env_profile_io :: io_outcome
  env_now :: pystr
  env_history_io :: bool
  env_merge_untyped :: "extracted \<Rightarrow> profile_manager \<Rightarrow> profile_manager"

text \<open>
  The dict of the extractor handed to \<open>update_profile_from_ai\<close>, read at the types of the
  profile. The validation does not look at the items of the lists or at the values of the
  dicts, and the merge tests each of them for truth before anything else: one that is
  false (\<open>null\<close>, \<open>""\<close>, \<open>0\<close>, \<open>false\<close>, \<open>[]\<close>, \<open>{}\<close>) is skipped whatever its type, as the
  empty string is, and a string is merged as it is. An item or value that is true and not
  a string (\<open>5\<close> in \<open>{"goals": [5]}\<close>) is put into the profile by the source, and saved; a
  profile over text has no place for it, so such a dict has no reading here and the result
  is \<open>None\<close>. The name has been checked by the validation: it is a string or false.
\<close>

definition text_of :: "json \<Rightarrow> pystr option" where
  "text_of v = (case v of JStr s \<Rightarrow> Some s | _ \<Rightarrow> if truthy v then None else Some [])"

definition texts_of :: "json list \<Rightarrow> pystr list option" where
  "texts_of vs = those (map text_of vs)"

definition text_values :: "(pystr \<times> json) list \<Rightarrow> pydict option" where
  "text_values kvs = those (map (\<lambda>(k, v). map_option (Pair k) (text_of v)) kvs)"

definition profile_fields :: "extracted \<Rightarrow> extraction option" where
  "profile_fields d =
     (case (texts_of (x_personality_traits d), text_values (x_preferences d),
            texts_of (x_goals d), text_values (x_important_dates d), texts_of (x_facts d)) of
        (Some traits, Some prefs, Some gs, Some dates, Some fs) \<Rightarrow>
          Some \<lparr>ex_name = (case x_name d of JStr s \<Rightarrow> Some s | _ \<Rightarrow> None),
                ex_personality_traits = Some traits, ex_preferences = Some prefs,
                ex_goals = Some gs, ex_important_dates = Some dates, ex_facts = Some fs\<rparr>
      | _ \<Rightarrow> None)"

text \<open>
  The profile update of a completed turn: extract from the last ten turns (one more call
  to the provider) and merge. A dict with a reading over text is merged by
  \<open>update_profile_from_ai\<close> as modelled above; for any other dict the resulting manager is
  the one the environment names.
\<close>

definition update_profile_step :: "env \<Rightarrow> user_instance \<Rightarrow> profile_manager \<Rightarrow> user_instance" where
  "update_profile_step e inst manager =
     (let recent_messages =
            drop (length (conversation_history inst) - 10) (conversation_history inst);
          extracted_data =
            extract_user_info (env_generate e (ai_provider inst)) (env_loads e) recent_messages
      in inst\<lparr>ai_provider := ai_provider inst + 1,
              profile_manager :=
                Some (case profile_fields extracted_data of
                        Some typed \<Rightarrow>
                          snd (update_profile_from_ai (env_profile_io e) (env_now e) typed manager)
                      | None \<Rightarrow> env_merge_untyped e extracted_data manager)\<rparr>)"

subsection \<open>The HTTP server, \<open>src/api/server.py\<close>\<close>

record chat_request =
  user_id :: pystr
  message :: pystr

text \<open>What the endpoint answers: a \<open>ChatResponse\<close> (response, conversation id, message
  count) or an \<open>HTTPException\<close> (status code, detail).\<close>

datatype http_result = ChatResponse pystr pystr nat | HTTPException int pystr

text \<open>
  The model call of \<open>chat\<close>: the user turn is appended, the prompt is built, the history
  window is selected, and the provider is called once with them.
\<close>

definition chat_reply :: "env \<Rightarrow> user_instance \<Rightarrow> pystr \<Rightarrow> reply" where
  "chat_reply e inst msg =
     (let inst1 = inst\<lparr>conversation_history :=
                        conversation_history inst @ [\<lparr>role = User, content = msg, proactive = False\<rparr>]\<rparr>;
          system_prompt = build_system_prompt inst1 True;
          relevant_history = get_relevant_history (env_lower e) (conversation_history inst1) msg;
          max_tokens = get_max_tokens (config_manager inst1)
      in env_generate e (ai_provider inst) relevant_history system_prompt (Some max_tokens))"

text \<open>
  The endpoint \<open>chat\<close> on the instance of the requesting user. An exception of the model
  call leaves the \<open>try\<close> at once and becomes \<open>HTTPException(status_code=500)\<close>; otherwise
  the assistant turn is appended, the pair is added to the vector store, the conversation
  is counted and the profile updated when due, and the history is cut to 20 turns.
\<close>

definition chat :: "env \<Rightarrow> user_instance \<Rightarrow> chat_request \<Rightarrow> http_result \<times> user_instance" where
  "chat e inst request =
     (let inst1 = inst\<lparr>conversation_history :=
                        conversation_history inst @
                        [\<lparr>role = User, content = message request, proactive = False\<rparr>]\<rparr>;
          generated = chat_reply e inst (message request);
          inst2 = inst1\<lparr>ai_provider := ai_provider inst1 + 1\<rparr>
      in case generated of
           Raises error \<Rightarrow> (HTTPException 500 (asc ''Internal server error: '' @ error), inst2)
         | Returns response \<Rightarrow>
             (let inst3 = inst2\<lparr>conversation_history :=
                                 conversation_history inst2 @
                                 [\<lparr>role = Assistant, content = response, proactive = False\<rparr>]\<rparr>;
                  inst4 =
                    (case vector_store inst3 of
                       None \<Rightarrow> inst3
                     | Some store \<Rightarrow>
                         if length (conversation_history inst3) \<ge> 2
                         then inst3\<lparr>vector_store :=
                                      Some (env_add_conversation e store
                                              (content (conversation_history inst3 !
                                                 (length (conversation_history inst3) - 2)))
                                              response)\<rparr>
                         else inst3);
                  inst5 =
                    (case profile_manager inst4 of
                       None \<Rightarrow> inst4
                     | Some manager \<Rightarrow>
                         (let counted = increment_conversation_count manager
                          in if should_update_profile counted
                             then update_profile_step e inst4 counted
                             else inst4\<lparr>profile_manager := Some counted\<rparr>));
                  inst6 =
                    (if length (conversation_history inst5) > 20
                     then inst5\<lparr>conversation_history :=
                                  drop (length (conversation_history inst5) - 20)
                                    (conversation_history inst5)\<rparr>
                     else inst5)
              in (ChatResponse response (user_id request) (length (conversation_history inst6)),
                  inst6)))"

subsection \<open>The desktop application, \<open>src/main.py\<close>\<close>

text \<open>
  \<open>class DesktopPet\<close>: the same per-user state, whether a provider could be created, the
  messages shown in the chat window (text, \<open>is_user\<close>), the thinking indicator, and the
  history file.
\<close>

record desktop_pet =
  pet :: user_instance
  provider_ready :: bool
  chat_ui :: "(pystr \<times> bool) list"
  thinking_indicator :: bool
  history_file :: "turn list"

text \<open>
  \<open>DesktopPet._save_conversation_history\<close>: the last 20 turns are written; a failed write
  is reported and changes nothing.
\<close>

definition save_conversation_history :: "env \<Rightarrow> desktop_pet \<Rightarrow> desktop_pet" where
  "save_conversation_history e s =
     (if env_history_io e
      then s\<lparr>history_file :=
               (if length (conversation_history (pet s)) > 20
                then drop (length (conversation_history (pet s)) - 20) (conversation_history (pet s))
                else conversation_history (pet s))\<rparr>
      else s)"

text \<open>
  \<open>DesktopPet._on_message_sent\<close>, up to the start of the worker: the new state and the
  arguments the worker is created with (messages, system prompt, \<open>max_tokens\<close>).
\<close>

definition on_message_sent ::
  "env \<Rightarrow> desktop_pet \<Rightarrow> pystr \<Rightarrow> desktop_pet \<times> (turn list \<times> pystr \<times> int)" where
  "on_message_sent e s msg =
     (let s1 = s\<lparr>chat_ui := chat_ui s @ [(msg, True)]\<rparr>;
          s2 = s1\<lparr>pet := (pet s1)\<lparr>conversation_history :=
                     conversation_history (pet s1) @
                     [\<lparr>role = User, content = msg, proactive = False\<rparr>]\<rparr>\<rparr>;
          s3 = save_conversation_history e s2;
          s4 = s3\<lparr>thinking_indicator := True\<rparr>;
          max_tokens = get_max_tokens (config_manager (pet s4));
          system_prompt = build_system_prompt (pet s4) True;
          relevant_history =
            desktop_get_relevant_history (env_lower e) (conversation_history (pet s4)) msg
      in (s4, (relevant_history, system_prompt, max_tokens)))"

text \<open>The two signals of the worker, and \<open>AIWorker.run\<close>: one call, no loop.\<close>

datatype signal = ResponseReady pystr | ErrorOccurred pystr

definition ai_worker_run ::
  "env \<Rightarrow> desktop_pet \<Rightarrow> turn list \<times> pystr \<times> int \<Rightarrow> signal \<times> desktop_pet" where
  "ai_worker_run e s args =
     (case args of
        (messages, system_prompt, max_tokens) \<Rightarrow>
          if provider_ready s
          then (case env_generate e (ai_provider (pet s)) messages system_prompt (Some max_tokens) of
                  Returns response \<Rightarrow>
                    (ResponseReady response,
                     s\<lparr>pet := (pet s)\<lparr>ai_provider := ai_provider (pet s) + 1\<rparr>\<rparr>)
                | Raises error \<Rightarrow>
                    (ErrorOccurred (asc ''Error: '' @ error),
                     s\<lparr>pet := (pet s)\<lparr>ai_provider := ai_provider (pet s) + 1\<rparr>\<rparr>))
          else (ErrorOccurred
                  (asc ''AI provider not initialized. Please check your API key in settings.''), s))"

text \<open>\<open>DesktopPet._on_ai_error\<close>.\<close>

definition on_ai_error :: "env \<Rightarrow> desktop_pet \<Rightarrow> pystr \<Rightarrow> desktop_pet" where
  "on_ai_error e s error =
     (let s1 = s\<lparr>thinking_indicator := False\<rparr>;
          error_msg = asc ''Sorry, I encountered an error: '' @ error;
          s2 = s1\<lparr>chat_ui := chat_ui s1 @ [(error_msg, False)]\<rparr>;
          s3 = s2\<lparr>pet := (pet s2)\<lparr>conversation_history :=
                     conversation_history (pet s2) @
                     [\<lparr>role = Assistant, content = error_msg, proactive = False\<rparr>]\<rparr>\<rparr>
      in save_conversation_history e s3)"

text \<open>\<open>DesktopPet._on_ai_response\<close>, with the profile worker run to its end.\<close>

definition on_ai_response :: "env \<Rightarrow> desktop_pet \<Rightarrow> pystr \<Rightarrow> desktop_pet" where
  "on_ai_response e s response =
     (let s1 = s\<lparr>thinking_indicator := False, chat_ui := chat_ui s @ [(response, False)]\<rparr>;
          earlier = conversation_history (pet s1);
          i2 = (pet s1)\<lparr>conversation_history :=
                  earlier @ [\<lparr>role = Assistant, content = response, proactive = False\<rparr>]\<rparr>;
          i3 = (case vector_store i2 of
                  None \<Rightarrow> i2
                | Some store \<Rightarrow>
                    if length (conversation_history i2) \<ge> 2 \<and> last_user_message earlier \<noteq> []
                    then i2\<lparr>vector_store :=
                              Some (env_add_conversation e store (last_user_message earlier) response)\<rparr>
                    else i2);
          i4 = (case profile_manager i3 of
                  None \<Rightarrow> i3
                | Some manager \<Rightarrow>
                    (let counted = increment_conversation_count manager
                     in if should_update_profile counted
                        then update_profile_step e i3 counted
                        else i3\<lparr>profile_manager := Some counted\<rparr>));
          i5 = (if length (conversation_history i4) > 20
                then i4\<lparr>conversation_history :=
                          drop (length (conversation_history i4) - 20) (conversation_history i4)\<rparr>
                else i4)
      in save_conversation_history e (s1\<lparr>pet := i5\<rparr>))"

text \<open>
  A whole turn of the desktop application: the message is sent, the worker runs, and the
  handler connected to the signal it emits is called.
\<close>

definition desktop_turn :: "env \<Rightarrow> desktop_pet \<Rightarrow> pystr \<Rightarrow> desktop_pet" where
  "desktop_turn e s msg =
     (let (s1, args) = on_message_sent e s msg;
          (emitted, s2) = ai_worker_run e s1 args
      in case emitted of
           ResponseReady response \<Rightarrow> on_ai_response e s2 response
         | ErrorOccurred error \<Rightarrow> on_ai_error e s2 error)"

text \<open>The provider's answer to the call of this turn.\<close>

definition desktop_reply :: "env \<Rightarrow> desktop_pet \<Rightarrow> pystr \<Rightarrow> reply" where
  "desktop_reply e s msg =
     (case on_message_sent e s msg of
        (s1, messages, system_prompt, max_tokens) \<Rightarrow>
          env_generate e (ai_provider (pet s1)) messages system_prompt (Some max_tokens))"

text \<open>
  Examples: an environment whose provider fails every call with a timeout, a desktop
  state and a request.
\<close>

definition timeout_provider :: "nat \<Rightarrow> provider" where
  "timeout_provider n = always_replies (Raises (asc ''OpenAI API error: timeout''))"

definition keep_store :: "vector_store \<Rightarrow> pystr \<Rightarrow> pystr \<Rightarrow> vector_store" where
  "keep_store store user_msg response = store"

definition keep_manager :: "extracted \<Rightarrow> profile_manager \<Rightarrow> profile_manager" where
  "keep_manager extracted_data manager = manager"

definition failing_env :: env where
  "failing_env =
     \<lparr>env_generate = timeout_provider, env_loads = json_loads, env_lower = ascii_lower,
      env_add_conversation = keep_store, env_profile_io = IoOk, env_now = clock1,
      env_history_io = True, env_merge_untyped = keep_manager\<rparr>"

definition pirate_pet :: desktop_pet where
  "pirate_pet =
     \<lparr>pet = pirate_instance, provider_ready = True, chat_ui = [], thinking_indicator = False,
      history_file = []\<rparr>"

definition hello_request :: chat_request where
  "hello_request = \<lparr>user_id = asc ''user-1'', message = asc ''hello''\<rparr>"


section \<open>The update cadence\<close>

text \<open>
  C1 (as the code has it). \<open>should_update_profile\<close> follows the piecewise modulo schedule on
  the profile's \<open>conversation_count\<close>: never at a count of 0 or less, at the multiples of 5
  from 1 to 20, the multiples of 10 from 21 to 50, the multiples of 15 above 50. So it is
  true at 5, 10, 15, 20, 30, 40, 50, 60 and 75, and false at 1, 2, 3, 4, 21, 55, 65 and 80.
\<close>

theorem should_update_profile_schedule:
  fixes m :: profile_manager
  shows "(conversation_count (profile m) \<le> 0 \<longrightarrow> \<not> should_update_profile m)
       \<and> (1 \<le> conversation_count (profile m) \<and> conversation_count (profile m) \<le> 20 \<longrightarrow>
            should_update_profile m = (conversation_count (profile m) mod 5 = 0))
       \<and> (21 \<le> conversation_count (profile m) \<and> conversation_count (profile m) \<le> 50 \<longrightarrow>
            should_update_profile m = (conversation_count (profile m) mod 10 = 0))
       \<and> (50 < conversation_count (profile m) \<longrightarrow>
            should_update_profile m = (conversation_count (profile m) mod 15 = 0))
       \<and> (conversation_count (profile m) \<in> {5, 10, 15, 20, 30, 40, 50, 60, 75} \<longrightarrow>
            should_update_profile m)
       \<and> (conversation_count (profile m) \<in> {1, 2, 3, 4, 21, 55, 65, 80} \<longrightarrow>
            \<not> should_update_profile m)"
  unfolding should_update_profile_def Let_def by auto

theorem should_update_profile_schedule_witness:
  "\<not> should_update_profile (manager_at 0)
   \<and> should_update_profile (manager_at 15)
   \<and> should_update_profile (manager_at 30)
   \<and> should_update_profile (manager_at 60)
   \<and> \<not> should_update_profile (manager_at 55)"
  using should_update_profile_schedule [of "manager_at 0"]
        should_update_profile_schedule [of "manager_at 15"]
        should_update_profile_schedule [of "manager_at 30"]
        should_update_profile_schedule [of "manager_at 60"]
        should_update_profile_schedule [of "manager_at 55"]
  by (simp add: manager_at_def new_profile_def)

text \<open>
  The counts 65 and 80 are not multiples of 15: no update is triggered there.
\<close>

theorem should_update_profile_65_80_counterexample:
  "\<not> should_update_profile (manager_at 65) \<and> \<not> should_update_profile (manager_at 80)"
  by (simp add: should_update_profile_def manager_at_def new_profile_def)


section \<open>Merging an extraction into the profile\<close>

subsection \<open>The loops\<close>

lemma merge_items_shape:
  "\<exists>ys. snd (merge_items xs u cur) = cur @ ys \<and> fst (merge_items xs u cur) = (u \<or> ys \<noteq> [])"
proof (induction xs arbitrary: u cur)
  case Nil
  then show ?case by simp
next
  case (Cons x xs)
  show ?case
  proof (cases "x \<noteq> [] \<and> x \<notin> set cur")
    case True
    from Cons.IH [of True "cur @ [x]"] obtain ys where
      "snd (merge_items xs True (cur @ [x])) = (cur @ [x]) @ ys"
      "fst (merge_items xs True (cur @ [x])) = (True \<or> ys \<noteq> [])" by blast
    with True show ?thesis by (intro exI [of _ "x # ys"]) simp
  next
    case False
    with Cons.IH [of u cur] show ?thesis by auto
  qed
qed

lemma merge_items_flag: "fst (merge_items xs u cur) = (u \<or> snd (merge_items xs u cur) \<noteq> cur)"
  using merge_items_shape [of xs u cur] by auto

lemma merge_items_set:
  "set (snd (merge_items xs u cur)) = set cur \<union> {x \<in> set xs. x \<noteq> []}"
  by (induction xs arbitrary: u cur) auto

lemma merge_items_distinct:
  "distinct cur \<Longrightarrow> distinct (snd (merge_items xs u cur))"
  by (induction xs arbitrary: u cur) auto

lemma merge_items_noop:
  "\<forall>x\<in>set xs. x \<noteq> [] \<longrightarrow> x \<in> set cur \<Longrightarrow> merge_items xs u cur = (u, cur)"
  by (induction xs arbitrary: u cur) auto

lemma merge_items_idem:
  "merge_items xs u' (snd (merge_items xs u cur)) = (u', snd (merge_items xs u cur))"
  by (rule merge_items_noop) (simp add: merge_items_set)

lemma merge_dict_keys:
  "distinct (map fst cur) \<Longrightarrow> distinct (map fst (snd (merge_dict kvs u cur)))"
  by (induction kvs u cur rule: merge_dict.induct) (auto simp: distinct_update)

lemma merge_dict_other:
  "k \<notin> fst ` set kvs \<Longrightarrow> map_of (snd (merge_dict kvs u cur)) k = map_of cur k"
  by (induction kvs u cur rule: merge_dict.induct) (auto simp: update_conv')

lemma merge_dict_mono: "fst (merge_dict kvs True cur)"
  by (induction kvs "True" cur rule: merge_dict.induct) auto

lemma merge_dict_unchanged:
  "\<not> fst (merge_dict kvs u cur) \<Longrightarrow> snd (merge_dict kvs u cur) = cur"
  by (induction kvs u cur rule: merge_dict.induct) (auto simp: merge_dict_mono split: if_splits)

lemma merge_dict_changed:
  "distinct (map fst kvs) \<Longrightarrow> \<not> u \<Longrightarrow> fst (merge_dict kvs u cur) \<Longrightarrow>
   map_of (snd (merge_dict kvs u cur)) \<noteq> map_of cur"
proof (induction kvs u cur rule: merge_dict.induct)
  case (1 updated cur)
  then show ?case by simp
next
  case (2 k v kvs updated cur)
  show ?case
  proof (cases "k \<noteq> [] \<and> v \<noteq> [] \<and> map_of cur k \<noteq> Some v")
    case True
    from "2.prems" have "k \<notin> fst ` set kvs" by auto
    then have "map_of (snd (merge_dict kvs True (AList.update k v cur))) k = Some v"
      by (simp add: merge_dict_other update_conv')
    with True have "map_of (snd (merge_dict kvs True (AList.update k v cur))) k \<noteq> map_of cur k"
      by auto
    then have "map_of (snd (merge_dict kvs True (AList.update k v cur))) \<noteq> map_of cur"
      by metis
    with True show ?thesis by simp
  next
    case False
    with 2 show ?thesis by auto
  qed
qed

lemma merge_dict_flag:
  "distinct (map fst kvs) \<Longrightarrow>
   fst (merge_dict kvs u cur) = (u \<or> snd (merge_dict kvs u cur) \<noteq> cur)"
  using merge_dict_changed [of kvs u cur] merge_dict_unchanged [of kvs u cur]
        merge_dict_mono [of kvs cur]
  by (cases u) auto

lemma merge_dict_after:
  "distinct (map fst kvs) \<Longrightarrow> (k, v) \<in> set kvs \<Longrightarrow> k \<noteq> [] \<Longrightarrow> v \<noteq> [] \<Longrightarrow>
   map_of (snd (merge_dict kvs u cur)) k = Some v"
proof (induction kvs u cur rule: merge_dict.induct)
  case (1 updated cur)
  then show ?case by simp
next
  case (2 k' v' kvs updated cur)
  show ?case
  proof (cases "(k, v) = (k', v')")
    case True
    from "2.prems" have "k' \<notin> fst ` set kvs" by auto
    with True "2.prems" show ?thesis
      by (auto simp: merge_dict_other update_conv')
  next
    case False
    with "2.prems" have "(k, v) \<in> set kvs" "distinct (map fst kvs)" by auto
    with 2 show ?thesis by auto
  qed
qed

lemma merge_dict_noop:
  "\<forall>(k, v)\<in>set kvs. k \<noteq> [] \<and> v \<noteq> [] \<longrightarrow> map_of cur k = Some v \<Longrightarrow>
   merge_dict kvs u cur = (u, cur)"
  by (induction kvs u cur rule: merge_dict.induct) auto

lemma merge_dict_idem:
  "distinct (map fst kvs) \<Longrightarrow>
   merge_dict kvs u' (snd (merge_dict kvs u cur)) = (u', snd (merge_dict kvs u cur))"
  by (rule merge_dict_noop) (auto simp: merge_dict_after)


lemma merge_items_snd: "snd (merge_items xs u cur) = snd (merge_items xs False cur)"
  by (induction xs arbitrary: u cur) auto

lemma merge_name_flag: "fst (merge_name new u cur) = (u \<or> snd (merge_name new u cur) \<noteq> cur)"
  by (auto simp: merge_name_def split: option.splits)

lemma merge_name_idem:
  "merge_name new u' (snd (merge_name new u cur)) = (u', snd (merge_name new u cur))"
  by (auto simp: merge_name_def split: option.splits)

lemma merge_list_field_flag:
  "fst (merge_list_field new u cur) = (u \<or> snd (merge_list_field new u cur) \<noteq> cur)"
  using merge_items_flag by (auto simp: merge_list_field_def split: option.splits)

lemma merge_list_field_idem:
  "merge_list_field new u' (snd (merge_list_field new u cur)) =
   (u', snd (merge_list_field new u cur))"
  by (simp add: merge_list_field_def merge_items_idem split: option.splits)

lemma merge_list_field_distinct:
  "distinct cur \<Longrightarrow> distinct (snd (merge_list_field new u cur))"
  by (simp add: merge_list_field_def merge_items_distinct split: option.splits)

lemma merge_dict_field_flag:
  "keys_unique new \<Longrightarrow>
   fst (merge_dict_field new u cur) = (u \<or> snd (merge_dict_field new u cur) \<noteq> cur)"
  using merge_dict_flag by (auto simp: merge_dict_field_def keys_unique_def split: option.splits)

lemma merge_dict_field_idem:
  "keys_unique new \<Longrightarrow>
   merge_dict_field new u' (snd (merge_dict_field new u cur)) =
   (u', snd (merge_dict_field new u cur))"
  by (simp add: merge_dict_field_def keys_unique_def merge_dict_idem split: option.splits)

lemma merge_dict_field_keys:
  "distinct (map fst cur) \<Longrightarrow> distinct (map fst (snd (merge_dict_field new u cur)))"
  by (simp add: merge_dict_field_def merge_dict_keys split: option.splits)

lemma merge_dict_snd: "snd (merge_dict kvs u cur) = snd (merge_dict kvs False cur)"
  by (induction kvs u cur rule: merge_dict.induct) (auto simp: merge_dict_unchanged merge_dict_mono)

lemma merge_name_snd:
  "NO_MATCH False u \<Longrightarrow> snd (merge_name new u cur) = snd (merge_name new False cur)"
  by (auto simp: merge_name_def split: option.splits)

lemma merge_list_field_snd:
  "NO_MATCH False u \<Longrightarrow>
   snd (merge_list_field new u cur) = snd (merge_list_field new False cur)"
  using merge_items_snd by (auto simp: merge_list_field_def split: option.splits)

lemma merge_dict_field_snd:
  "NO_MATCH False u \<Longrightarrow>
   snd (merge_dict_field new u cur) = snd (merge_dict_field new False cur)"
  using merge_dict_snd by (auto simp: merge_dict_field_def split: option.splits)

lemmas merge_snd = merge_name_snd merge_list_field_snd merge_dict_field_snd

lemma apply_extraction_flag:
  assumes "wf_extraction e"
  shows "fst (apply_extraction e p) = (\<not> same_fields (snd (apply_extraction e p)) p)"
  using assms
  by (simp add: apply_extraction_def wf_extraction_def same_fields_def split_beta Let_def
      merge_name_flag merge_list_field_flag merge_dict_field_flag merge_snd)

lemma apply_extraction_unchanged:
  "\<not> fst (apply_extraction e p) \<Longrightarrow> wf_extraction e \<Longrightarrow> snd (apply_extraction e p) = p"
  by (simp add: apply_extraction_def wf_extraction_def split_beta Let_def
      merge_name_flag merge_list_field_flag merge_dict_field_flag merge_snd)

lemma apply_extraction_idem:
  assumes "wf_extraction e"
  shows "apply_extraction e (snd (apply_extraction e p)) = (False, snd (apply_extraction e p))"
  using assms
  by (simp add: apply_extraction_def wf_extraction_def split_beta Let_def
      merge_name_idem merge_list_field_idem merge_dict_field_idem)

lemma apply_extraction_inv:
  "profile_inv p \<Longrightarrow> profile_inv (snd (apply_extraction e p))"
  by (simp add: apply_extraction_def profile_inv_def split_beta Let_def
      merge_list_field_distinct merge_dict_field_keys)

lemma apply_extraction_meta:
  "conversation_count (snd (apply_extraction e p)) = conversation_count p"
  "last_updated (snd (apply_extraction e p)) = last_updated p"
  "created_at (snd (apply_extraction e p)) = created_at p"
  by (simp_all add: apply_extraction_def split_beta Let_def)

lemma save_profile_fields: "same_fields (profile (snd (save_profile io now m))) (profile m)"
  by (simp add: save_profile_def same_fields_def Let_def split: io_outcome.splits)

lemma same_fields_trans: "same_fields p q \<Longrightarrow> same_fields q r \<Longrightarrow> same_fields p r"
  by (simp add: same_fields_def)

lemma same_fields_refl: "same_fields p p"
  by (simp add: same_fields_def)

lemma same_fields_sym: "same_fields p q = same_fields q p"
  by (auto simp: same_fields_def)

lemma update_fields:
  "same_fields (profile (snd (update_profile_from_ai io now e m))) (snd (apply_extraction e (profile m)))"
  using save_profile_fields [of io now "m\<lparr>profile := snd (apply_extraction e (profile m))\<rparr>"]
  by (simp add: update_profile_from_ai_def split_beta Let_def same_fields_refl)

lemma same_fields_cong1: "same_fields p q \<Longrightarrow> same_fields p r = same_fields q r"
  by (auto simp: same_fields_def)

lemma apply_extraction_last_updated:
  "apply_extraction e (p\<lparr>last_updated := t\<rparr>) =
   (fst (apply_extraction e p), (snd (apply_extraction e p))\<lparr>last_updated := t\<rparr>)"
  by (simp add: apply_extraction_def split_beta Let_def)


subsection \<open>The contract of the merge\<close>

text \<open>
  C2 (as the code has it). For every manager and every extraction whose dicts have unique
  keys, \<open>update_profile_from_ai\<close> returns \<open>None\<close>, not a boolean. Its local flag \<open>updated\<close>
  is true exactly when one of the six merged fields of the profile changed. When the flag
  is true \<open>save_profile\<close> runs: if the file system cooperates, \<open>last_updated\<close> is refreshed
  and the file holds the profile; if creating the directory fails, nothing is refreshed or
  written; if the write fails, \<open>last_updated\<close> is refreshed and the file is left as the
  failure left it. When the flag is false nothing is written and the manager is unchanged.
\<close>

theorem update_profile_from_ai_contract:
  assumes "wf_extraction e"
  shows "fst (update_profile_from_ai io now e m) = PyNone
       \<and> fst (apply_extraction e (profile m)) =
           (\<not> same_fields (profile (snd (update_profile_from_ai io now e m))) (profile m))
       \<and> (fst (apply_extraction e (profile m)) \<and> io = IoOk \<longrightarrow>
            last_updated (profile (snd (update_profile_from_ai io now e m))) = now
            \<and> disk (snd (update_profile_from_ai io now e m)) =
                Stored (profile (snd (update_profile_from_ai io now e m))))
       \<and> (fst (apply_extraction e (profile m)) \<and> io = MkdirFails \<longrightarrow>
            last_updated (profile (snd (update_profile_from_ai io now e m))) =
              last_updated (profile m)
            \<and> disk (snd (update_profile_from_ai io now e m)) = disk m)
       \<and> (\<forall>d. fst (apply_extraction e (profile m)) \<and> io = WriteFails d \<longrightarrow>
            last_updated (profile (snd (update_profile_from_ai io now e m))) = now
            \<and> disk (snd (update_profile_from_ai io now e m)) = d)
       \<and> (\<not> fst (apply_extraction e (profile m)) \<longrightarrow>
            snd (update_profile_from_ai io now e m) = m)"
proof -
  have ret: "fst (update_profile_from_ai io now e m) = PyNone"
    by (simp add: update_profile_from_ai_def split_beta Let_def)
  have flag: "fst (apply_extraction e (profile m)) =
      (\<not> same_fields (profile (snd (update_profile_from_ai io now e m))) (profile m))"
    using apply_extraction_flag [OF assms, of "profile m"]
          same_fields_cong1 [OF update_fields [of io now e m], of "profile m"]
    by simp
  have ok: "fst (apply_extraction e (profile m)) \<and> io = IoOk \<longrightarrow>
            last_updated (profile (snd (update_profile_from_ai io now e m))) = now
            \<and> disk (snd (update_profile_from_ai io now e m)) =
                Stored (profile (snd (update_profile_from_ai io now e m)))"
    by (simp add: update_profile_from_ai_def save_profile_def split_beta Let_def)
  have mk: "fst (apply_extraction e (profile m)) \<and> io = MkdirFails \<longrightarrow>
            last_updated (profile (snd (update_profile_from_ai io now e m))) =
              last_updated (profile m)
            \<and> disk (snd (update_profile_from_ai io now e m)) = disk m"
    by (simp add: update_profile_from_ai_def save_profile_def split_beta Let_def
        apply_extraction_meta)
  have wr: "\<forall>d. fst (apply_extraction e (profile m)) \<and> io = WriteFails d \<longrightarrow>
            last_updated (profile (snd (update_profile_from_ai io now e m))) = now
            \<and> disk (snd (update_profile_from_ai io now e m)) = d"
    by (simp add: update_profile_from_ai_def save_profile_def split_beta Let_def)
  have no: "\<not> fst (apply_extraction e (profile m)) \<longrightarrow>
            snd (update_profile_from_ai io now e m) = m"
    using apply_extraction_unchanged [OF _ assms, of "profile m"]
    by (simp add: update_profile_from_ai_def split_beta Let_def)
  from ret flag ok mk wr no show ?thesis by blast
qed

theorem update_profile_from_ai_contract_witness:
  "wf_extraction alex_extraction
   \<and> fst (apply_extraction alex_extraction (profile (manager_at 0)))
   \<and> last_updated (profile (snd (update_profile_from_ai IoOk clock1 alex_extraction (manager_at 0))))
       = clock1
   \<and> disk (snd (update_profile_from_ai IoOk clock1 alex_extraction (manager_at 0))) =
       Stored (profile (snd (update_profile_from_ai IoOk clock1 alex_extraction (manager_at 0))))
   \<and> disk (snd (update_profile_from_ai (WriteFails Unreadable) clock1 alex_extraction (manager_at 0)))
       = Unreadable
   \<and> wf_extraction empty_extraction
   \<and> \<not> fst (apply_extraction empty_extraction (profile (manager_at 0)))
   \<and> snd (update_profile_from_ai IoOk clock1 empty_extraction (manager_at 0)) = manager_at 0"
proof -
  have wf: "wf_extraction alex_extraction" "wf_extraction empty_extraction"
    by (simp_all add: wf_extraction_def keys_unique_def alex_extraction_def empty_extraction_def)
  have f1: "fst (apply_extraction alex_extraction (profile (manager_at 0)))"
    by (simp add: apply_extraction_def alex_extraction_def manager_at_def new_profile_def
        merge_name_def merge_list_field_def merge_dict_field_def asc_def)
  have f2: "\<not> fst (apply_extraction empty_extraction (profile (manager_at 0)))"
    by (simp add: apply_extraction_def empty_extraction_def manager_at_def new_profile_def
        merge_name_def merge_list_field_def merge_dict_field_def)
  show ?thesis
    using wf f1 f2
      update_profile_from_ai_contract [OF wf(1), of IoOk clock1 "manager_at 0"]
      update_profile_from_ai_contract [OF wf(1), of "WriteFails Unreadable" clock1 "manager_at 0"]
      update_profile_from_ai_contract [OF wf(2), of IoOk clock1 "manager_at 0"]
    by simp
qed

text \<open>
  A change is not always reported by a boolean and persisted: the name of an empty
  profile is set to Alex, so a field changed, yet the call returns \<open>None\<close> and, the
  directory not being creatable, nothing is persisted and \<open>last_updated\<close> keeps its old
  value.
\<close>

theorem update_profile_from_ai_contract_counterexample:
  "name (profile (manager_at 0)) = None
   \<and> name (profile (snd (update_profile_from_ai MkdirFails clock1 alex_extraction (manager_at 0))))
       = Some (asc ''Alex'')
   \<and> fst (update_profile_from_ai MkdirFails clock1 alex_extraction (manager_at 0)) = PyNone
   \<and> fst (update_profile_from_ai MkdirFails clock1 alex_extraction (manager_at 0)) \<noteq> PyBool True
   \<and> disk (snd (update_profile_from_ai MkdirFails clock1 alex_extraction (manager_at 0))) = NoFile
   \<and> last_updated (profile (snd (update_profile_from_ai MkdirFails clock1 alex_extraction (manager_at 0))))
       \<noteq> clock1"
  by (simp add: update_profile_from_ai_def save_profile_def apply_extraction_def
      alex_extraction_def manager_at_def new_profile_def merge_name_def merge_list_field_def
      merge_dict_field_def asc_def clock1_def)


subsection \<open>Idempotence\<close>

text \<open>
  C5. The merge is idempotent: for every manager and every extraction (a Python value, so
  the keys of its dicts are unique), applying the same extraction a second time right after
  the first leaves name, personality_traits, preferences, goals, important_dates and facts
  as the first application left them; in fact the second call changes nothing at all,
  whatever the clock and the file system do.
\<close>

theorem update_profile_from_ai_idempotent:
  assumes "wf_extraction e"
  shows "same_fields
           (profile (snd (update_profile_from_ai io2 now2 e
                       (snd (update_profile_from_ai io1 now1 e m)))))
           (profile (snd (update_profile_from_ai io1 now1 e m)))
       \<and> snd (update_profile_from_ai io2 now2 e (snd (update_profile_from_ai io1 now1 e m))) =
           snd (update_profile_from_ai io1 now1 e m)"
proof -
  let ?m1 = "snd (update_profile_from_ai io1 now1 e m)"
  let ?q = "snd (apply_extraction e (profile m))"
  have data: "profile ?m1 = ?q \<or> profile ?m1 = ?q\<lparr>last_updated := now1\<rparr>"
    by (simp add: update_profile_from_ai_def save_profile_def split_beta Let_def
        split: io_outcome.splits)
  have q: "apply_extraction e ?q = (False, ?q)"
    by (rule apply_extraction_idem [OF assms])
  have lu: "apply_extraction e (?q\<lparr>last_updated := now1\<rparr>) = (False, ?q\<lparr>last_updated := now1\<rparr>)"
    using q by (simp add: apply_extraction_last_updated)
  from data q lu have "apply_extraction e (profile ?m1) = (False, profile ?m1)" by auto
  then have "snd (update_profile_from_ai io2 now2 e ?m1) = ?m1"
    by (simp add: update_profile_from_ai_def)
  then show ?thesis by (simp add: same_fields_refl)
qed

theorem update_profile_from_ai_idempotent_witness:
  "wf_extraction alex_extraction
   \<and> goals (profile (snd (update_profile_from_ai IoOk clock2 alex_extraction
               (snd (update_profile_from_ai IoOk clock1 alex_extraction (manager_at 0))))))
       = [asc ''learn guitar'']
   \<and> name (profile (snd (update_profile_from_ai IoOk clock2 alex_extraction
               (snd (update_profile_from_ai IoOk clock1 alex_extraction (manager_at 0))))))
       = Some (asc ''Alex'')"
proof -
  have wf: "wf_extraction alex_extraction"
    by (simp add: wf_extraction_def keys_unique_def alex_extraction_def)
  have first: "goals (profile (snd (update_profile_from_ai IoOk clock1 alex_extraction (manager_at 0))))
        = [asc ''learn guitar'']
      \<and> name (profile (snd (update_profile_from_ai IoOk clock1 alex_extraction (manager_at 0))))
        = Some (asc ''Alex'')"
    by (simp add: update_profile_from_ai_def save_profile_def apply_extraction_def
        alex_extraction_def manager_at_def new_profile_def merge_name_def merge_list_field_def
        merge_dict_field_def asc_def Let_def)
  show ?thesis
    using wf first
      update_profile_from_ai_idempotent [OF wf, of IoOk clock2 IoOk clock1 "manager_at 0"]
    by (simp add: same_fields_def)
qed


subsection \<open>The duplicate-free invariant\<close>

text \<open>
  C8. For every manager whose profile is duplicate-free (no trait, goal or fact twice, no
  preference or date key twice) and every extraction, the profile after
  \<open>update_profile_from_ai\<close> is duplicate-free again.
\<close>

theorem update_profile_from_ai_preserves_invariant:
  assumes "profile_inv (profile m)"
  shows "profile_inv (profile (snd (update_profile_from_ai io now e m)))"
proof -
  have "profile_inv (snd (apply_extraction e (profile m)))"
    by (rule apply_extraction_inv [OF assms])
  moreover have "same_fields (profile (snd (update_profile_from_ai io now e m)))
      (snd (apply_extraction e (profile m)))"
    by (rule update_fields)
  ultimately show ?thesis by (simp add: profile_inv_def same_fields_def)
qed

theorem update_profile_from_ai_preserves_invariant_witness:
  "profile_inv (profile (manager_at 0))
   \<and> profile_inv (profile (snd (update_profile_from_ai IoOk clock1 alex_extraction (manager_at 0))))"
proof -
  have inv: "profile_inv (profile (manager_at 0))"
    by (simp add: profile_inv_def manager_at_def new_profile_def)
  show ?thesis
    using inv update_profile_from_ai_preserves_invariant [OF inv, of IoOk clock1 alex_extraction]
    by simp
qed


section \<open>Selecting the history window\<close>

subsection \<open>Strings and slices\<close>

lemma starts_with_iff: "starts_with s w = (\<exists>q. s = w @ q)"
  by (induction s w rule: starts_with.induct) auto

lemma str_contains_iff: "str_contains w s = (\<exists>p q. s = p @ w @ q)"
proof (induction s)
  case Nil
  then show ?case by auto
next
  case (Cons c cs)
  show ?case
  proof
    assume "str_contains w (c # cs)"
    then consider "starts_with (c # cs) w" | "str_contains w cs" by auto
    then show "\<exists>p q. c # cs = p @ w @ q"
    proof cases
      case 1
      then obtain q where "c # cs = w @ q" by (auto simp: starts_with_iff)
      then have "c # cs = [] @ w @ q" by simp
      then show ?thesis by blast
    next
      case 2
      with Cons.IH obtain p q where "cs = p @ w @ q" by auto
      then have "c # cs = (c # p) @ w @ q" by simp
      then show ?thesis by blast
    qed
  next
    assume "\<exists>p q. c # cs = p @ w @ q"
    then obtain p q where pq: "c # cs = p @ w @ q" by blast
    show "str_contains w (c # cs)"
    proof (cases p)
      case Nil
      with pq have "starts_with (c # cs) w" by (auto simp: starts_with_iff)
      then show ?thesis by simp
    next
      case (Cons a p')
      with pq have "cs = p' @ w @ q" by simp
      with Cons.IH have "str_contains w cs" by blast
      then show ?thesis by simp
    qed
  qed
qed


lemma last_turns_drop: "drop (length h - n) h = last_turns n h"
  by (simp add: last_turns_def take_rev)


lemma last_turns_length: "length (last_turns n h) = min n (length h)"
  by (simp add: last_turns_def)

lemma window_guard:
  "(if n < length h then drop (length h - n) h else h) = last_turns n h"
  by (simp add: last_turns_drop [symmetric])

lemma lq_words: "length (py_split long_question) = 33"
  by (simp add: long_question_def py_split_def is_space_def asc_def)

lemma lq_hi: "str_contains (asc ''hi'') (ascii_lower long_question)"
  by (simp add: long_question_def ascii_lower_def asc_def)

lemma lq_q: "63 \<in> set long_question"
  by (simp add: long_question_def asc_def)


subsection \<open>The selection rule\<close>






subsection \<open>Greetings are found by substring\<close>

text \<open>
  C10. A message is classified as a greeting when its lowercased text contains one of
  \<open>hello\<close>, \<open>hi\<close>, the two Chinese greetings or \<open>hey\<close> anywhere as a substring, not as a word:
  for every such message, in the server and in the desktop application, the selection is
  the last 3 turns at most, whatever the word count and whether or not it is a question.
  The example is a question of 33 words that contains "this".
\<close>

theorem greeting_by_substring:
  assumes "\<exists>w\<in>set greeting_words. \<exists>p q. lower msg = p @ w @ q"
  shows "get_relevant_history lower history msg = last_turns 3 history
       \<and> desktop_get_relevant_history lower history msg = last_turns 3 history
       \<and> length (get_relevant_history lower history msg) \<le> 3"
proof -
  from assms have g: "list_ex (\<lambda>word. str_contains word (lower msg)) greeting_words"
    by (simp add: list_ex_iff str_contains_iff)
  then show ?thesis
    by (simp add: get_relevant_history_def desktop_get_relevant_history_def Let_def
        window_guard last_turns_drop last_turns_length)
qed

theorem greeting_by_substring_witness:
  "(\<exists>p q. ascii_lower long_question = p @ asc ''hi'' @ q)
   \<and> length (py_split long_question) = 33
   \<and> 63 \<in> set long_question
   \<and> get_relevant_history ascii_lower five_turns long_question =
       [user_says ''three'', pet_says ''four'', user_says ''five'']
   \<and> desktop_get_relevant_history ascii_lower five_turns long_question =
       [user_says ''three'', pet_says ''four'', user_says ''five'']"
proof -
  have hi: "\<exists>p q. ascii_lower long_question = p @ asc ''hi'' @ q"
    using lq_hi by (simp add: str_contains_iff)
  then have g: "\<exists>w\<in>set greeting_words. \<exists>p q. ascii_lower long_question = p @ w @ q"
    by (simp add: greeting_words_def)
  show ?thesis
    using hi lq_words lq_q greeting_by_substring [of ascii_lower long_question five_turns, OF g]
    by (simp add: five_turns_def last_turns_def)
qed


section \<open>Extraction degrades to the empty result\<close>

subsection \<open>The example replies\<close>









subsection \<open>Replies without a JSON object\<close>








section \<open>The sections of the prompt\<close>

lemma py_join_Cons:
  "py_join sep (x # xs) = x @ (if xs = [] then [] else sep @ py_join sep xs)"
  by (cases xs) simp_all

lemma starts_with_append_lit:
  "starts_with ((c # cs) @ t) (p # ps) = (c = p \<and> starts_with (cs @ t) ps)"
  by simp

lemma labelled_kinds:
  "p \<in> set (labelled ''Personality: '' t) \<or> p \<in> set (labelled ''Backstory: '' t)
   \<or> p \<in> set (labelled ''Traits: '' t) \<or> p \<in> set (labelled ''Preferences: '' t)
   \<or> p \<in> set (labelled ''Worldview Background: '' t) \<or> p \<in> set (labelled ''Worldview Setting: '' t)
   \<Longrightarrow> \<not> is_critical_section p \<and> \<not> is_guidelines_block p \<and> \<not> is_memory_section p"
  by (auto simp: labelled_def is_critical_section_def is_guidelines_block_def
      is_memory_section_def warning_sign_def asc_def split: if_splits)

lemma character_kinds:
  "p \<in> set (character_parts cfg) \<Longrightarrow>
   \<not> is_critical_section p \<and> \<not> is_guidelines_block p \<and> \<not> is_memory_section p"
  unfolding character_parts_def using labelled_kinds [of p] by auto

lemma fallback_kinds:
  "p \<in> set (fallback_parts parts simple) \<Longrightarrow>
   \<not> is_critical_section p \<and> \<not> is_guidelines_block p \<and> \<not> is_memory_section p"
  by (auto simp: fallback_parts_def is_critical_section_def is_guidelines_block_def
      is_memory_section_def warning_sign_def asc_def split: if_splits option.splits)

lemma profile_kinds:
  "p \<in> set (profile_parts with_facts manager) \<Longrightarrow>
   \<not> is_critical_section p \<and> \<not> is_guidelines_block p \<and> \<not> is_memory_section p"
  by (auto simp: profile_parts_def Let_def py_join_Cons is_critical_section_def
      is_guidelines_block_def is_memory_section_def warning_sign_def asc_def
      split: if_splits option.splits)

lemma memory_kinds:
  "p \<in> set (memory_parts threshold include_rag store history) \<Longrightarrow>
   \<not> is_critical_section p \<and> \<not> is_guidelines_block p \<and> is_memory_section p"
  by (auto simp: memory_parts_def memory_text_def Let_def is_critical_section_def
      is_guidelines_block_def is_memory_section_def warning_sign_def asc_def
      split: if_splits option.splits list.splits)

lemma guideline_kinds:
  "p \<in> set (guideline_parts has max_tokens) \<Longrightarrow>
   \<not> is_critical_section p \<and> is_guidelines_block p \<and> \<not> is_memory_section p"
  by (auto simp: guideline_parts_def Let_def is_critical_section_def
      is_guidelines_block_def is_memory_section_def warning_sign_def asc_def
      split: if_splits)

lemma guideline_parts_empty: "(guideline_parts has max_tokens = []) = has"
  by (simp add: guideline_parts_def Let_def split_beta)

lemma directive_kinds:
  "p \<in> set (fst (directive_parts cfg)) \<Longrightarrow>
   is_critical_section p \<and> \<not> is_guidelines_block p \<and> \<not> is_memory_section p"
  by (auto simp: directive_parts_def Let_def is_critical_section_def
      is_guidelines_block_def is_memory_section_def warning_sign_def asc_def
      split: if_splits)

lemma directive_flag:
  "snd (directive_parts cfg) = (cfg_output_example cfg \<noteq> [] \<or> cfg_notes cfg \<noteq> [])"
  by (simp add: directive_parts_def Let_def)

lemma directive_count:
  "length (fst (directive_parts cfg)) =
   (if cfg_output_example cfg \<noteq> [] then 1 else 0) + (if cfg_notes cfg \<noteq> [] then 1 else 0)"
  by (simp add: directive_parts_def Let_def)

lemma directive_only_example:
  "cfg_output_example cfg \<noteq> [] \<Longrightarrow> cfg_notes cfg = [] \<Longrightarrow>
   directive_parts cfg =
     ([warning_sign @
       asc '' CRITICAL - Output Example & Performance Requirements (MUST FOLLOW EXACTLY):'' @
       [10] @ cfg_output_example cfg], True)"
  by (simp add: directive_parts_def Let_def)

lemma filter_none: "(\<And>x. x \<in> set xs \<Longrightarrow> \<not> P x) \<Longrightarrow> filter P xs = []"
  by (induction xs) auto

lemma filter_all: "(\<And>x. x \<in> set xs \<Longrightarrow> P x) \<Longrightarrow> filter P xs = xs"
  by (induction xs) auto

lemma prompt_parts_split:
  "prompt_parts threshold with_facts inst include_rag =
     fst (directive_parts (load_character_config (config_manager inst)))
     @ character_parts (load_character_config (config_manager inst))
     @ fallback_parts
         (fst (directive_parts (load_character_config (config_manager inst)))
          @ character_parts (load_character_config (config_manager inst)))
         (load_personality (config_manager inst))
     @ profile_parts with_facts (profile_manager inst)
     @ memory_parts threshold include_rag (vector_store inst) (conversation_history inst)
     @ guideline_parts (snd (directive_parts (load_character_config (config_manager inst))))
         (get_max_tokens (config_manager inst))"
  by (simp add: prompt_parts_def Let_def split_beta)

lemma critical_sections:
  "filter is_critical_section (prompt_parts threshold with_facts inst include_rag) =
   fst (directive_parts (load_character_config (config_manager inst)))"
  by (simp add: prompt_parts_split filter_all directive_kinds
      filter_none character_kinds fallback_kinds profile_kinds memory_kinds guideline_kinds)

lemma guidelines_blocks:
  "filter is_guidelines_block (prompt_parts threshold with_facts inst include_rag) =
   guideline_parts (snd (directive_parts (load_character_config (config_manager inst))))
     (get_max_tokens (config_manager inst))"
  by (simp add: prompt_parts_split filter_all guideline_kinds
      filter_none character_kinds fallback_kinds profile_kinds memory_kinds directive_kinds)

lemma memory_sections:
  "filter is_memory_section (prompt_parts threshold with_facts inst include_rag) =
   memory_parts threshold include_rag (vector_store inst) (conversation_history inst)"
  by (simp add: prompt_parts_split filter_all memory_kinds
      filter_none character_kinds fallback_kinds profile_kinds guideline_kinds directive_kinds)

subsection \<open>Counting a word in the prompt\<close>

lemma starts_with_sep: "c \<notin> set w \<Longrightarrow> starts_with (a @ c # b) w = starts_with a w"
  by (induction a w rule: starts_with.induct) auto

lemma count_sep:
  "w \<noteq> [] \<Longrightarrow> c \<notin> set w \<Longrightarrow> count_occ w (a @ c # b) = count_occ w a + count_occ w b"
proof (induction a)
  case Nil
  from Nil starts_with_sep [of c w "[]" b] show ?case by (cases w) auto
next
  case (Cons x a)
  from Cons.prems starts_with_sep [of c w "x # a" b] Cons.IH show ?case by simp
qed

lemma count_zero_iff: "w \<noteq> [] \<Longrightarrow> (count_occ w s = 0) = (\<not> str_contains w s)"
  by (induction s) auto

lemma contains_take: "str_contains w (take n t) \<Longrightarrow> str_contains w t"
proof -
  assume "str_contains w (take n t)"
  then obtain p q where "take n t = p @ w @ q" by (auto simp: str_contains_iff)
  then have "t = p @ w @ (q @ drop n t)" by (metis append.assoc append_take_drop_id)
  then show ?thesis unfolding str_contains_iff by blast
qed

lemma count_take:
  assumes "w \<noteq> []" "count_occ w t = 0"
  shows "count_occ w (take n t) = 0"
proof -
  from assms have "\<not> str_contains w t" by (simp add: count_zero_iff)
  then have "\<not> str_contains w (take n t)" using contains_take [of w n t] by blast
  with assms(1) show ?thesis by (simp add: count_zero_iff)
qed

lemma count_skip: "w \<noteq> [] \<Longrightarrow> set sep \<inter> set w = {} \<Longrightarrow> count_occ w (sep @ b) = count_occ w b"
proof (induction sep)
  case Nil
  then show ?case by simp
next
  case (Cons c sep)
  from Cons.prems have "count_occ w ([] @ c # (sep @ b)) = count_occ w [] + count_occ w (sep @ b)"
    by (intro count_sep) auto
  with Cons show ?case by simp
qed

lemma count_around:
  assumes "w \<noteq> []" "sep \<noteq> []" "set sep \<inter> set w = {}"
  shows "count_occ w (a @ sep @ b) = count_occ w a + count_occ w b"
proof -
  from assms(2) obtain c sep' where sep: "sep = c # sep'" by (cases sep) auto
  with assms(3) have c: "c \<notin> set w" and rest: "set sep' \<inter> set w = {}" by auto
  have "count_occ w (a @ c # (sep' @ b)) = count_occ w a + count_occ w (sep' @ b)"
    by (rule count_sep [OF assms(1) c])
  with count_skip [OF assms(1) rest, of b] sep show ?thesis by simp
qed

lemma count_join:
  assumes "w \<noteq> []" "sep \<noteq> []" "set sep \<inter> set w = {}"
  shows "count_occ w (py_join sep ps) = sum_list (map (count_occ w) ps)"
proof (induction ps)
  case Nil
  then show ?case by simp
next
  case (Cons x ps)
  show ?case
  proof (cases ps)
    case Nil
    then show ?thesis by simp
  next
    case (Cons y ys)
    have "count_occ w (py_join sep (x # y # ys)) = count_occ w (x @ sep @ py_join sep (y # ys))"
      by simp
    also have "\<dots> = count_occ w x + count_occ w (py_join sep (y # ys))"
      by (rule count_around [OF assms])
    finally show ?thesis using Cons.IH Cons by simp
  qed
qed

lemma count_label:
  assumes "w \<noteq> []" "a \<noteq> []" "last a \<notin> set w"
  shows "count_occ w (a @ t) = count_occ w a + count_occ w t"
proof -
  have a: "a = butlast a @ [last a]" using assms(2) by simp
  have "count_occ w (butlast a @ last a # t) = count_occ w (butlast a) + count_occ w t"
    by (rule count_sep [OF assms(1) assms(3)])
  moreover have "count_occ w (butlast a @ last a # []) = count_occ w (butlast a) + count_occ w []"
    by (rule count_sep [OF assms(1) assms(3)])
  ultimately show ?thesis using a by (metis add.right_neutral append.assoc append_Cons append_Nil count_occ.simps(1))
qed

lemma total_clean:
  "(\<And>t. t \<in> set xs \<Longrightarrow> count_occ w t = 0) \<Longrightarrow> sum_list (map (count_occ w) xs) = 0"
  by (induction xs) auto

lemma sep_freeD:
  assumes "sep_free w"
  shows "w \<noteq> []" "10 \<notin> set w" "32 \<notin> set w" "44 \<notin> set w" "46 \<notin> set w" "124 \<notin> set w"
  using assms by (simp_all add: sep_free_def)

lemma labelled_total:
  assumes "sep_free w" "count_occ w (asc l) = 0" "count_occ w t = 0"
    and "asc l \<noteq> []" "last (asc l) = 32"
  shows "sum_list (map (count_occ w) (labelled l t)) = 0"
  using assms count_label [of w "asc l" t] by (simp add: labelled_def sep_freeD)

lemma character_total:
  assumes "sep_free w" "label_free w"
    and "count_occ w (cfg_personality c) = 0" "count_occ w (cfg_backstory c) = 0"
    and "count_occ w (cfg_traits c) = 0" "count_occ w (cfg_preferences c) = 0"
    and "count_occ w (cfg_worldview_background c) = 0" "count_occ w (cfg_worldview_setting c) = 0"
  shows "sum_list (map (count_occ w) (character_parts c)) = 0"
proof -
  have l: "asc ''Personality: '' \<noteq> [] \<and> last (asc ''Personality: '') = 32"
    "asc ''Backstory: '' \<noteq> [] \<and> last (asc ''Backstory: '') = 32"
    "asc ''Traits: '' \<noteq> [] \<and> last (asc ''Traits: '') = 32"
    "asc ''Preferences: '' \<noteq> [] \<and> last (asc ''Preferences: '') = 32"
    "asc ''Worldview Background: '' \<noteq> [] \<and> last (asc ''Worldview Background: '') = 32"
    "asc ''Worldview Setting: '' \<noteq> [] \<and> last (asc ''Worldview Setting: '') = 32"
    by (simp_all add: asc_def)
  from assms(2) have f: "count_occ w (asc ''Personality: '') = 0"
    "count_occ w (asc ''Backstory: '') = 0" "count_occ w (asc ''Traits: '') = 0"
    "count_occ w (asc ''Preferences: '') = 0" "count_occ w (asc ''Worldview Background: '') = 0"
    "count_occ w (asc ''Worldview Setting: '') = 0"
    by (simp_all add: label_free_def)
  show ?thesis
    unfolding character_parts_def
    using labelled_total [OF assms(1) f(1) assms(3)] labelled_total [OF assms(1) f(2) assms(4)]
      labelled_total [OF assms(1) f(3) assms(5)] labelled_total [OF assms(1) f(4) assms(6)]
      labelled_total [OF assms(1) f(5) assms(7)] labelled_total [OF assms(1) f(6) assms(8)] l
    by simp
qed

lemma fallback_total:
  assumes "sep_free w" "label_free w"
    and "\<And>t. simple = Some t \<Longrightarrow> count_occ w t = 0"
  shows "sum_list (map (count_occ w) (fallback_parts parts simple)) = 0"
proof -
  have l: "asc ''Personality: '' \<noteq> []" "last (asc ''Personality: '') \<notin> set w"
    using sep_freeD(3) [OF assms(1)] by (simp_all add: asc_def)
  from assms(2) have f: "count_occ w (asc ''Personality: '') = 0"
    "count_occ w (asc ''You are a friendly and supportive AI companion.'') = 0"
    by (simp_all add: label_free_def)
  show ?thesis
    using assms(3) f count_label [OF sep_freeD(1) [OF assms(1)] l]
    by (auto simp: fallback_parts_def split: option.splits)
qed

lemma joined_clean:
  assumes "sep_free w" "sep \<noteq> []" "set sep \<subseteq> {32, 44, 124}"
    and "\<And>t. t \<in> set xs \<Longrightarrow> count_occ w t = 0"
  shows "count_occ w (py_join sep xs) = 0"
proof -
  from assms(1,3) have "set sep \<inter> set w = {}" by (auto simp: sep_free_def)
  from count_join [OF sep_freeD(1) [OF assms(1)] assms(2) this, of xs] total_clean [of xs w] assms(4)
  show ?thesis by simp
qed

lemma labelled_list_clean:
  assumes "sep_free w" "count_occ w (asc l) = 0" "asc l \<noteq> []" "last (asc l) = 32"
    and "\<And>t. t \<in> set xs \<Longrightarrow> count_occ w t = 0"
  shows "count_occ w (asc l @ py_join (asc '', '') (take n xs)) = 0"
proof -
  have "count_occ w (py_join (asc '', '') (take n xs)) = 0"
  proof (rule joined_clean [OF assms(1)])
    show "asc '', '' \<noteq> []" by (simp add: asc_def)
    show "set (asc '', '') \<subseteq> {32, 44, 124}" by (simp add: asc_def)
    fix t assume "t \<in> set (take n xs)"
    then have "t \<in> set xs" by (rule in_set_takeD)
    then show "count_occ w t = 0" by (rule assms(5))
  qed
  with count_label [of w "asc l"] assms show ?thesis by (simp add: sep_freeD)
qed

lemma profile_total:
  assumes "sep_free w" "label_free w"
    and "\<And>m n. manager = Some m \<Longrightarrow> name (profile m) = Some n \<Longrightarrow> count_occ w n = 0"
    and "\<And>m t. manager = Some m \<Longrightarrow> t \<in> set (personality_traits (profile m)) \<Longrightarrow> count_occ w t = 0"
    and "\<And>m t. manager = Some m \<Longrightarrow> t \<in> set (goals (profile m)) \<Longrightarrow> count_occ w t = 0"
    and "\<And>m t. manager = Some m \<Longrightarrow> with_facts \<Longrightarrow> t \<in> set (facts (profile m)) \<Longrightarrow> count_occ w t = 0"
  shows "sum_list (map (count_occ w) (profile_parts with_facts manager)) = 0"
proof (cases manager)
  case None
  then show ?thesis by (simp add: profile_parts_def)
next
  case (Some m)
  let ?p = "profile m"
  let ?summary = "(case name ?p of None \<Rightarrow> [] | Some n \<Rightarrow> if n \<noteq> [] then [asc ''User: '' @ n] else [])
      @ (if personality_traits ?p \<noteq> []
         then [asc ''Traits: '' @ py_join (asc '', '') (take 3 (personality_traits ?p))] else [])
      @ (if goals ?p \<noteq> []
         then [asc ''Goals: '' @ py_join (asc '', '') (take 3 (goals ?p))] else [])
      @ (if with_facts \<and> facts ?p \<noteq> []
         then [asc ''Important facts: '' @ py_join (asc '', '') (take 5 (facts ?p))] else [])"
  from assms(2) have f: "count_occ w (asc ''User: '') = 0" "count_occ w (asc ''Traits: '') = 0"
    "count_occ w (asc ''Goals: '') = 0" "count_occ w (asc ''Important facts: '') = 0"
    by (simp_all add: label_free_def)
  have l: "asc ''User: '' \<noteq> []" "last (asc ''User: '') = 32"
    "asc ''Traits: '' \<noteq> []" "last (asc ''Traits: '') = 32"
    "asc ''Goals: '' \<noteq> []" "last (asc ''Goals: '') = 32"
    "asc ''Important facts: '' \<noteq> []" "last (asc ''Important facts: '') = 32"
    by (simp_all add: asc_def)
  have n: "\<And>n. name ?p = Some n \<Longrightarrow> count_occ w (asc ''User: '' @ n) = 0"
    using count_label [of w "asc ''User: ''"] f(1) l(1,2) assms(3) [OF Some] sep_freeD [OF assms(1)]
    by simp
  have t: "count_occ w (asc ''Traits: '' @ py_join (asc '', '') (take 3 (personality_traits ?p))) = 0"
    by (rule labelled_list_clean [OF assms(1) f(2) l(3,4)]) (rule assms(4) [OF Some])
  have g: "count_occ w (asc ''Goals: '' @ py_join (asc '', '') (take 3 (goals ?p))) = 0"
    by (rule labelled_list_clean [OF assms(1) f(3) l(5,6)]) (rule assms(5) [OF Some])
  have fa: "with_facts \<Longrightarrow>
      count_occ w (asc ''Important facts: '' @ py_join (asc '', '') (take 5 (facts ?p))) = 0"
    by (rule labelled_list_clean [OF assms(1) f(4) l(7,8)]) (rule assms(6) [OF Some])
  have each: "\<And>x. x \<in> set ?summary \<Longrightarrow> count_occ w x = 0"
    using n t g fa by (auto split: option.splits if_splits)
  have "count_occ w (py_join (asc '' | '') ?summary) = 0"
  proof (rule joined_clean [OF assms(1)])
    show "asc '' | '' \<noteq> []" by (simp add: asc_def)
    show "set (asc '' | '') \<subseteq> {32, 44, 124}" by (simp add: asc_def)
  qed (rule each)
  with Some show ?thesis by (simp add: profile_parts_def Let_def)
qed

lemma snippet_clean:
  assumes "sep_free w" "count_occ w (asc l) = 0" "asc l \<noteq> []" "last (asc l) = 32"
    and "count_occ w t = 0"
  shows "count_occ w (asc l @ take n t @ asc ''...'') = 0"
proof -
  note w = sep_freeD [OF assms(1)]
  have dots: "asc ''...'' = [46, 46, 46]" by (simp add: asc_def)
  have "count_occ w (take n t @ 46 # [46, 46]) = count_occ w (take n t) + count_occ w [46, 46]"
    by (rule count_sep [OF w(1) w(5)])
  moreover have "count_occ w ([46, 46] @ []) = count_occ w []"
    by (rule count_skip [OF w(1)]) (use w(5) in auto)
  ultimately have "count_occ w (take n t @ asc ''...'') = 0"
    using count_take [OF w(1) assms(5), of n] dots by simp
  with count_label [of w "asc l" "take n t @ asc ''...''"] assms w show ?thesis by simp
qed

lemma memory_text_clean:
  assumes "sep_free w" "label_free w"
    and "count_occ w (user_message conv) = 0" "count_occ w (ai_response conv) = 0"
  shows "count_occ w (memory_text conv) = 0"
proof -
  note w = sep_freeD [OF assms(1)]
  from assms(2) have f: "count_occ w (asc ''Relevant memory:'') = 0"
    "count_occ w (asc ''U: '') = 0" "count_occ w (asc ''A: '') = 0"
    by (simp_all add: label_free_def)
  have l: "asc ''U: '' \<noteq> []" "last (asc ''U: '') = 32" "asc ''A: '' \<noteq> []" "last (asc ''A: '') = 32"
    by (simp_all add: asc_def)
  let ?u = "asc ''U: '' @ take 100 (user_message conv) @ asc ''...''"
  let ?a = "asc ''A: '' @ take 100 (ai_response conv) @ asc ''...''"
  have u: "count_occ w ?u = 0" by (rule snippet_clean [OF assms(1) f(2) l(1,2) assms(3)])
  have a: "count_occ w ?a = 0" by (rule snippet_clean [OF assms(1) f(3) l(3,4) assms(4)])
  have shape: "memory_text conv = asc ''Relevant memory:'' @ 10 # (?u @ 10 # ?a)"
    by (simp add: memory_text_def)
  have "count_occ w (?u @ 10 # ?a) = count_occ w ?u + count_occ w ?a"
    by (rule count_sep [OF w(1) w(2)])
  moreover have "count_occ w (asc ''Relevant memory:'' @ 10 # (?u @ 10 # ?a)) =
      count_occ w (asc ''Relevant memory:'') + count_occ w (?u @ 10 # ?a)"
    by (rule count_sep [OF w(1) w(2)])
  ultimately show ?thesis using shape u a f(1) by simp
qed

lemma memory_parts_elem:
  assumes "t \<in> set (memory_parts threshold include_rag store history)"
  shows "\<exists>search conv. store = Some search
           \<and> conv \<in> set (search (last_user_message history) 2) \<and> t = memory_text conv"
proof (cases store)
  case None
  with assms show ?thesis by (simp add: memory_parts_def)
next
  case (Some search)
  let ?hs = "filter (\<lambda>conv. relevance_score conv > threshold)
      (search (last_user_message history) 2)"
  show ?thesis
  proof (cases ?hs)
    case Nil
    with assms Some show ?thesis by (simp add: memory_parts_def Let_def split: if_splits)
  next
    case (Cons conv others)
    then have "conv \<in> set ?hs" by simp
    then have in_hits: "conv \<in> set (search (last_user_message history) 2)" by simp
    from assms Some Cons have "t = memory_text conv"
      by (simp add: memory_parts_def Let_def split: if_splits)
    with Some in_hits show ?thesis by blast
  qed
qed

lemma memory_total:
  assumes "sep_free w" "label_free w"
    and "\<And>search conv. store = Some search \<Longrightarrow>
           conv \<in> set (search (last_user_message history) 2) \<Longrightarrow>
           count_occ w (user_message conv) = 0 \<and> count_occ w (ai_response conv) = 0"
  shows "sum_list (map (count_occ w) (memory_parts threshold include_rag store history)) = 0"
proof (rule total_clean)
  fix t assume "t \<in> set (memory_parts threshold include_rag store history)"
  from memory_parts_elem [OF this] obtain search conv where c: "store = Some search"
    "conv \<in> set (search (last_user_message history) 2)" "t = memory_text conv"
    by blast
  from assms(3) [OF c(1,2)] memory_text_clean [OF assms(1,2), of conv] c(3)
  show "count_occ w t = 0" by simp
qed

lemma clean_inputsD:
  assumes "clean_inputs w with_facts inst" "w \<noteq> []" "t \<in> set (prompt_inputs with_facts inst)"
  shows "count_occ w t = 0"
  using assms by (simp add: clean_inputs_def list_all_iff count_zero_iff)

lemma prompt_inputs_config:
  "cfg_personality (load_character_config (config_manager inst)) \<in> set (prompt_inputs fl inst)"
  "cfg_backstory (load_character_config (config_manager inst)) \<in> set (prompt_inputs fl inst)"
  "cfg_traits (load_character_config (config_manager inst)) \<in> set (prompt_inputs fl inst)"
  "cfg_preferences (load_character_config (config_manager inst)) \<in> set (prompt_inputs fl inst)"
  "cfg_output_example (load_character_config (config_manager inst)) \<in> set (prompt_inputs fl inst)"
  "cfg_worldview_background (load_character_config (config_manager inst)) \<in> set (prompt_inputs fl inst)"
  "cfg_worldview_setting (load_character_config (config_manager inst)) \<in> set (prompt_inputs fl inst)"
  "cfg_notes (load_character_config (config_manager inst)) \<in> set (prompt_inputs fl inst)"
  by (simp_all add: prompt_inputs_def Let_def)

lemma prompt_inputs_personality:
  "load_personality (config_manager inst) = Some t \<Longrightarrow> t \<in> set (prompt_inputs fl inst)"
  by (simp add: prompt_inputs_def Let_def)

lemma prompt_inputs_profile:
  "profile_manager inst = Some m \<Longrightarrow> name (profile m) = Some n \<Longrightarrow> n \<in> set (prompt_inputs fl inst)"
  "profile_manager inst = Some m \<Longrightarrow> t \<in> set (personality_traits (profile m)) \<Longrightarrow>
     t \<in> set (prompt_inputs fl inst)"
  "profile_manager inst = Some m \<Longrightarrow> t \<in> set (goals (profile m)) \<Longrightarrow>
     t \<in> set (prompt_inputs fl inst)"
  "profile_manager inst = Some m \<Longrightarrow> fl \<Longrightarrow> t \<in> set (facts (profile m)) \<Longrightarrow>
     t \<in> set (prompt_inputs fl inst)"
  by (simp_all add: prompt_inputs_def Let_def)

lemma prompt_inputs_memory:
  "vector_store inst = Some search \<Longrightarrow>
   conv \<in> set (search (last_user_message (conversation_history inst)) 2) \<Longrightarrow>
   user_message conv \<in> set (prompt_inputs fl inst) \<and> ai_response conv \<in> set (prompt_inputs fl inst)"
  by (auto simp: prompt_inputs_def Let_def)

lemma prompt_text_count:
  assumes w: "sep_free w" "label_free w"
    and clean: "clean_inputs w with_facts inst"
    and cfg: "cfg_output_example (load_character_config (config_manager inst)) \<noteq> []"
             "cfg_notes (load_character_config (config_manager inst)) = []"
  shows "count_occ w (py_join [10, 10] (prompt_parts threshold with_facts inst include_rag)) =
         count_occ w (warning_sign @
           asc '' CRITICAL - Output Example & Performance Requirements (MUST FOLLOW EXACTLY):'')"
proof -
  let ?c = "load_character_config (config_manager inst)"
  let ?hdr = "warning_sign @
    asc '' CRITICAL - Output Example & Performance Requirements (MUST FOLLOW EXACTLY):''"
  note ne = sep_freeD(1) [OF w(1)]
  note z = clean_inputsD [OF clean ne]
  have d: "directive_parts ?c = ([?hdr @ 10 # cfg_output_example ?c], True)"
    using cfg by (simp add: directive_parts_def Let_def)
  have "count_occ w (?hdr @ 10 # cfg_output_example ?c) =
      count_occ w ?hdr + count_occ w (cfg_output_example ?c)"
    by (rule count_sep [OF ne sep_freeD(2) [OF w(1)]])
  with z [OF prompt_inputs_config(5)] have dt:
    "sum_list (map (count_occ w) (fst (directive_parts ?c))) = count_occ w ?hdr"
    by (simp add: d)
  have ct: "sum_list (map (count_occ w) (character_parts ?c)) = 0"
    by (rule character_total [OF w])
       (rule z, rule prompt_inputs_config)+
  have ft: "sum_list (map (count_occ w)
      (fallback_parts (fst (directive_parts ?c) @ character_parts ?c)
         (load_personality (config_manager inst)))) = 0"
    by (rule fallback_total [OF w]) (rule z, rule prompt_inputs_personality)
  have pt: "sum_list (map (count_occ w) (profile_parts with_facts (profile_manager inst))) = 0"
  proof (rule profile_total [OF w])
    fix m n assume "profile_manager inst = Some m" "name (profile m) = Some n"
    then show "count_occ w n = 0" by (intro z prompt_inputs_profile(1))
  next
    fix m t assume "profile_manager inst = Some m" "t \<in> set (personality_traits (profile m))"
    then show "count_occ w t = 0" by (intro z prompt_inputs_profile(2))
  next
    fix m t assume "profile_manager inst = Some m" "t \<in> set (goals (profile m))"
    then show "count_occ w t = 0" by (intro z prompt_inputs_profile(3))
  next
    fix m t assume "profile_manager inst = Some m" "with_facts" "t \<in> set (facts (profile m))"
    then show "count_occ w t = 0" by (intro z prompt_inputs_profile(4))
  qed
  have mt: "sum_list (map (count_occ w)
      (memory_parts threshold include_rag (vector_store inst) (conversation_history inst))) = 0"
  proof (rule memory_total [OF w])
    fix search conv
    assume "vector_store inst = Some search"
      "conv \<in> set (search (last_user_message (conversation_history inst)) 2)"
    from prompt_inputs_memory [OF this, of with_facts] z
    show "count_occ w (user_message conv) = 0 \<and> count_occ w (ai_response conv) = 0" by blast
  qed
  have gt: "guideline_parts (snd (directive_parts ?c)) (get_max_tokens (config_manager inst)) = []"
    by (simp add: d guideline_parts_def)
  have "set [10, 10] \<inter> set w = {}" using sep_freeD(2) [OF w(1)] by simp
  then have "count_occ w (py_join [10, 10] (prompt_parts threshold with_facts inst include_rag)) =
      sum_list (map (count_occ w) (prompt_parts threshold with_facts inst include_rag))"
    by (intro count_join [OF ne]) simp_all
  also have "\<dots> = count_occ w ?hdr"
    unfolding prompt_parts_split using dt ct ft pt mt gt by simp
  finally show ?thesis .
qed

lemma critical_word:
  "sep_free (asc ''CRITICAL'')" "label_free (asc ''CRITICAL'')"
  "count_occ (asc ''CRITICAL'') (warning_sign @
     asc '' CRITICAL - Output Example & Performance Requirements (MUST FOLLOW EXACTLY):'') = 1"
  by (simp_all add: sep_free_def label_free_def warning_sign_def asc_def)

lemma guidelines_word:
  "sep_free (asc ''Guidelines:'')" "label_free (asc ''Guidelines:'')"
  "count_occ (asc ''Guidelines:'') (warning_sign @
     asc '' CRITICAL - Output Example & Performance Requirements (MUST FOLLOW EXACTLY):'') = 0"
  by (simp_all add: sep_free_def label_free_def warning_sign_def asc_def)

lemma directive_total:
  assumes w: "sep_free w"
    and z: "count_occ w (cfg_output_example c) = 0" "count_occ w (cfg_notes c) = 0"
  shows "sum_list (map (count_occ w) (fst (directive_parts c))) =
     (if cfg_output_example c \<noteq> []
      then count_occ w (warning_sign @
             asc '' CRITICAL - Output Example & Performance Requirements (MUST FOLLOW EXACTLY):'')
      else 0)
     + (if cfg_notes c \<noteq> []
        then (if cfg_output_example c \<noteq> []
              then count_occ w (warning_sign @ asc '' CRITICAL - Additional Notes (MUST FOLLOW):'')
              else count_occ w (warning_sign @ asc '' CRITICAL - Response Guidelines (MUST FOLLOW):''))
        else 0)"
proof -
  note s = count_sep [OF sep_freeD(1) [OF w] sep_freeD(2) [OF w]]
  have "\<And>a b t. count_occ w (a @ b @ 10 # t) = count_occ w (a @ b) + count_occ w t"
    using s [of "a @ b" for a b] by simp
  then show ?thesis using z by (simp add: directive_parts_def Let_def)
qed

lemma prompt_text_total:
  assumes w: "sep_free w" "label_free w"
    and clean: "clean_inputs w with_facts inst"
  shows "count_occ w (py_join [10, 10] (prompt_parts threshold with_facts inst include_rag)) =
         sum_list (map (count_occ w) (fst (directive_parts (load_character_config (config_manager inst)))))
         + sum_list (map (count_occ w)
             (guideline_parts (snd (directive_parts (load_character_config (config_manager inst))))
                (get_max_tokens (config_manager inst))))"
proof -
  let ?c = "load_character_config (config_manager inst)"
  note ne = sep_freeD(1) [OF w(1)]
  note z = clean_inputsD [OF clean ne]
  have ct: "sum_list (map (count_occ w) (character_parts ?c)) = 0"
    by (rule character_total [OF w])
       (rule z, rule prompt_inputs_config)+
  have ft: "sum_list (map (count_occ w)
      (fallback_parts (fst (directive_parts ?c) @ character_parts ?c)
         (load_personality (config_manager inst)))) = 0"
    by (rule fallback_total [OF w]) (rule z, rule prompt_inputs_personality)
  have pt: "sum_list (map (count_occ w) (profile_parts with_facts (profile_manager inst))) = 0"
  proof (rule profile_total [OF w])
    fix m n assume "profile_manager inst = Some m" "name (profile m) = Some n"
    then show "count_occ w n = 0" by (intro z prompt_inputs_profile(1))
  next
    fix m t assume "profile_manager inst = Some m" "t \<in> set (personality_traits (profile m))"
    then show "count_occ w t = 0" by (intro z prompt_inputs_profile(2))
  next
    fix m t assume "profile_manager inst = Some m" "t \<in> set (goals (profile m))"
    then show "count_occ w t = 0" by (intro z prompt_inputs_profile(3))
  next
    fix m t assume "profile_manager inst = Some m" "with_facts" "t \<in> set (facts (profile m))"
    then show "count_occ w t = 0" by (intro z prompt_inputs_profile(4))
  qed
  have mt: "sum_list (map (count_occ w)
      (memory_parts threshold include_rag (vector_store inst) (conversation_history inst))) = 0"
  proof (rule memory_total [OF w])
    fix search conv
    assume "vector_store inst = Some search"
      "conv \<in> set (search (last_user_message (conversation_history inst)) 2)"
    from prompt_inputs_memory [OF this, of with_facts] z
    show "count_occ w (user_message conv) = 0 \<and> count_occ w (ai_response conv) = 0" by blast
  qed
  have "set [10, 10] \<inter> set w = {}" using sep_freeD(2) [OF w(1)] by simp
  then have "count_occ w (py_join [10, 10] (prompt_parts threshold with_facts inst include_rag)) =
      sum_list (map (count_occ w) (prompt_parts threshold with_facts inst include_rag))"
    by (intro count_join [OF ne]) simp_all
  also have "\<dots> = sum_list (map (count_occ w) (fst (directive_parts ?c)))
         + sum_list (map (count_occ w)
             (guideline_parts (snd (directive_parts ?c)) (get_max_tokens (config_manager inst))))"
    unfolding prompt_parts_split using ct ft pt mt by simp
  finally show ?thesis .
qed

lemma guidelines_headers:
  "count_occ (asc ''Guidelines:'') (warning_sign @ asc '' CRITICAL - Additional Notes (MUST FOLLOW):'') = 0"
  "count_occ (asc ''Guidelines:'') (warning_sign @ asc '' CRITICAL - Response Guidelines (MUST FOLLOW):'') = 0"
  by (simp_all add: warning_sign_def asc_def)

lemma guidelines_in_block:
  "sum_list (map (count_occ (asc ''Guidelines:'')) (guideline_parts has max_tokens)) =
   (if has then 0 else 1)"
proof (cases has)
  case True
  then show ?thesis by (simp add: guideline_parts_def)
next
  case False
  consider "max_tokens \<le> 100" | "\<not> max_tokens \<le> 100" "max_tokens \<le> 200" | "\<not> max_tokens \<le> 200"
    by linarith
  then show ?thesis
  proof cases
    case 1
    with False show ?thesis by (simp add: guideline_parts_def asc_def)
  next
    case 2
    with False show ?thesis by (simp add: guideline_parts_def asc_def)
  next
    case 3
    then have "\<not> max_tokens \<le> 100" by simp
    with 3 False show ?thesis by (simp add: guideline_parts_def asc_def)
  qed
qed

lemma replicate_clean:
  assumes "x \<in> set w" "x \<noteq> c"
  shows "\<not> str_contains w (replicate n c)"
proof
  assume "str_contains w (replicate n c)"
  then obtain p q where "replicate n c = p @ w @ q" by (auto simp: str_contains_iff)
  then have "set w \<subseteq> set (replicate n c)" by (metis Un_upper1 Un_upper2 set_append subset_trans)
  with assms show False by auto
qed

lemma guidelines_text:
  assumes "clean_inputs (asc ''Guidelines:'') with_facts inst"
  shows "str_contains (asc ''Guidelines:'')
           (py_join [10, 10] (prompt_parts threshold with_facts inst include_rag)) =
         (cfg_output_example (load_character_config (config_manager inst)) = []
          \<and> cfg_notes (load_character_config (config_manager inst)) = [])"
proof -
  let ?c = "load_character_config (config_manager inst)"
  let ?w = "asc ''Guidelines:''"
  note ne = sep_freeD(1) [OF guidelines_word(1)]
  note z = clean_inputsD [OF assms ne]
  have d: "sum_list (map (count_occ ?w) (fst (directive_parts ?c))) = 0"
    using directive_total [OF guidelines_word(1) z [OF prompt_inputs_config(5)]
        z [OF prompt_inputs_config(8)]]
    by (simp add: guidelines_word(3) guidelines_headers)
  have "count_occ ?w (py_join [10, 10] (prompt_parts threshold with_facts inst include_rag)) =
      (if cfg_output_example ?c \<noteq> [] \<or> cfg_notes ?c \<noteq> [] then 0 else 1)"
    using prompt_text_total [OF guidelines_word(1,2) assms, of threshold include_rag] d
    by (simp add: guidelines_in_block directive_flag)
  then show ?thesis using count_zero_iff [OF ne, of "py_join [10, 10] (prompt_parts threshold with_facts inst include_rag)"]
    by (auto split: if_splits)
qed

subsection \<open>Critical directives and default guidelines\<close>

text \<open>
  C7. The prompt of \<open>build_system_prompt\<close> is its sections joined by blank lines. For every
  instance whose character configuration has \<open>output_example\<close> set and \<open>notes\<close> unset, the
  builder emits exactly one section under the \<open>CRITICAL\<close> marker, the one carrying the
  output example, and no default-guidelines block. The assembled text then contains the
  word \<open>CRITICAL\<close> exactly once, and the label \<open>Guidelines:\<close> not at all, provided that the
  texts supplied from outside (the fields of the configuration, the simple personality,
  the profile, the retrieved memories) do not contain them; a supplied text is copied into
  the prompt as it is, so without the proviso the count can be higher (see the example
  after the theorem). For every instance, the default-guidelines block is emitted exactly
  when neither \<open>output_example\<close> nor \<open>notes\<close> is set, and, under the proviso, the assembled
  text contains \<open>Guidelines:\<close> exactly then.
\<close>

theorem build_system_prompt_single_marker:
  "build_system_prompt inst include_rag =
     py_join [10, 10] (prompt_parts (7 / 10) False inst include_rag)
   \<and> (cfg_output_example (load_character_config (config_manager inst)) \<noteq> []
        \<and> cfg_notes (load_character_config (config_manager inst)) = [] \<longrightarrow>
      filter is_critical_section (prompt_parts (7 / 10) False inst include_rag) =
        [warning_sign @
         asc '' CRITICAL - Output Example & Performance Requirements (MUST FOLLOW EXACTLY):'' @
         [10] @ cfg_output_example (load_character_config (config_manager inst))]
      \<and> length (filter is_critical_section (prompt_parts (7 / 10) False inst include_rag)) = 1
      \<and> filter is_guidelines_block (prompt_parts (7 / 10) False inst include_rag) = []
      \<and> (clean_inputs (asc ''CRITICAL'') False inst \<longrightarrow>
           count_occ (asc ''CRITICAL'') (build_system_prompt inst include_rag) = 1)
      \<and> (clean_inputs (asc ''Guidelines:'') False inst \<longrightarrow>
           \<not> str_contains (asc ''Guidelines:'') (build_system_prompt inst include_rag)))
   \<and> ((filter is_guidelines_block (prompt_parts (7 / 10) False inst include_rag) \<noteq> []) =
        (cfg_output_example (load_character_config (config_manager inst)) = []
         \<and> cfg_notes (load_character_config (config_manager inst)) = []))
   \<and> (clean_inputs (asc ''Guidelines:'') False inst \<longrightarrow>
        str_contains (asc ''Guidelines:'') (build_system_prompt inst include_rag) =
          (cfg_output_example (load_character_config (config_manager inst)) = []
           \<and> cfg_notes (load_character_config (config_manager inst)) = []))"
proof -
  let ?c = "load_character_config (config_manager inst)"
  have sections: "cfg_output_example ?c \<noteq> [] \<and> cfg_notes ?c = [] \<longrightarrow>
      filter is_critical_section (prompt_parts (7 / 10) False inst include_rag) =
        [warning_sign @
         asc '' CRITICAL - Output Example & Performance Requirements (MUST FOLLOW EXACTLY):'' @
         [10] @ cfg_output_example ?c]
      \<and> length (filter is_critical_section (prompt_parts (7 / 10) False inst include_rag)) = 1
      \<and> filter is_guidelines_block (prompt_parts (7 / 10) False inst include_rag) = []"
    by (simp add: critical_sections guidelines_blocks guideline_parts_empty directive_flag
        directive_only_example)
  have word: "cfg_output_example ?c \<noteq> [] \<and> cfg_notes ?c = [] \<longrightarrow>
      clean_inputs (asc ''CRITICAL'') False inst \<longrightarrow>
      count_occ (asc ''CRITICAL'') (build_system_prompt inst include_rag) = 1"
    using prompt_text_count [OF critical_word(1,2), of False inst "7 / 10" include_rag]
    by (simp add: build_system_prompt_def critical_word(3))
  have label: "clean_inputs (asc ''Guidelines:'') False inst \<longrightarrow>
      str_contains (asc ''Guidelines:'') (build_system_prompt inst include_rag) =
        (cfg_output_example ?c = [] \<and> cfg_notes ?c = [])"
    using guidelines_text [of False inst "7 / 10" include_rag]
    by (simp add: build_system_prompt_def)
  then have block: "cfg_output_example ?c \<noteq> [] \<and> cfg_notes ?c = [] \<longrightarrow>
      clean_inputs (asc ''Guidelines:'') False inst \<longrightarrow>
      \<not> str_contains (asc ''Guidelines:'') (build_system_prompt inst include_rag)"
    by blast
  have only: "(filter is_guidelines_block (prompt_parts (7 / 10) False inst include_rag) \<noteq> []) =
      (cfg_output_example ?c = [] \<and> cfg_notes ?c = [])"
    by (simp add: guidelines_blocks guideline_parts_empty directive_flag)
  have joined: "build_system_prompt inst include_rag =
      py_join [10, 10] (prompt_parts (7 / 10) False inst include_rag)"
    by (simp add: build_system_prompt_def)
  from joined sections word block only label show ?thesis by blast
qed

theorem build_system_prompt_single_marker_witness:
  "cfg_output_example (load_character_config (config_manager pirate_instance)) \<noteq> []
   \<and> cfg_notes (load_character_config (config_manager pirate_instance)) = []
   \<and> clean_inputs (asc ''CRITICAL'') False pirate_instance
   \<and> clean_inputs (asc ''Guidelines:'') False pirate_instance
   \<and> length (filter is_critical_section (prompt_parts (7 / 10) False pirate_instance True)) = 1
   \<and> filter is_guidelines_block (prompt_parts (7 / 10) False pirate_instance True) = []
   \<and> count_occ (asc ''CRITICAL'') (build_system_prompt pirate_instance True) = 1
   \<and> \<not> str_contains (asc ''Guidelines:'') (build_system_prompt pirate_instance True)
   \<and> build_system_prompt pirate_instance True =
       warning_sign @
       asc '' CRITICAL - Output Example & Performance Requirements (MUST FOLLOW EXACTLY):'' @
       [10] @ asc ''Arr, matey!'' @ [10, 10] @
       asc ''You are a friendly and supportive AI companion.''
   \<and> cfg_output_example (load_character_config (config_manager memory_instance)) = []
   \<and> cfg_notes (load_character_config (config_manager memory_instance)) = []
   \<and> clean_inputs (asc ''Guidelines:'') False memory_instance
   \<and> str_contains (asc ''Guidelines:'') (build_system_prompt memory_instance True)"
proof -
  have c: "cfg_output_example (load_character_config (config_manager pirate_instance)) \<noteq> []"
          "cfg_notes (load_character_config (config_manager pirate_instance)) = []"
    by (simp_all add: pirate_instance_def pirate_config_def asc_def)
  have k: "clean_inputs (asc ''CRITICAL'') False pirate_instance"
          "clean_inputs (asc ''Guidelines:'') False pirate_instance"
    by (simp_all add: clean_inputs_def prompt_inputs_def pirate_instance_def pirate_config_def
        Let_def asc_def)
  have t: "prompt_parts (7 / 10) False pirate_instance True =
      [warning_sign @
       asc '' CRITICAL - Output Example & Performance Requirements (MUST FOLLOW EXACTLY):'' @
       [10] @ asc ''Arr, matey!'',
       asc ''You are a friendly and supportive AI companion.'']"
    by (simp add: prompt_parts_def pirate_instance_def pirate_config_def directive_parts_def
        character_parts_def labelled_def fallback_parts_def profile_parts_def memory_parts_def
        guideline_parts_def warning_sign_def Let_def asc_def)
  have j: "build_system_prompt pirate_instance True =
       warning_sign @
       asc '' CRITICAL - Output Example & Performance Requirements (MUST FOLLOW EXACTLY):'' @
       [10] @ asc ''Arr, matey!'' @ [10, 10] @
       asc ''You are a friendly and supportive AI companion.''"
    by (simp add: build_system_prompt_def t)
  have m: "cfg_output_example (load_character_config (config_manager memory_instance)) = []"
          "cfg_notes (load_character_config (config_manager memory_instance)) = []"
    by (simp_all add: memory_instance_def plain_config_def)
  have "last_user_message (conversation_history memory_instance) = asc ''five''"
    by (simp add: memory_instance_def five_turns_def last_user_message_def user_says_def
        pet_says_def)
  moreover have "\<not> str_contains (asc ''Guidelines:'') (replicate 120 97)"
    by (rule replicate_clean [of 71]) (simp_all add: asc_def)
  ultimately have n: "clean_inputs (asc ''Guidelines:'') False memory_instance"
    by (simp add: clean_inputs_def prompt_inputs_def memory_instance_def plain_config_def
        two_hit_store_def hit_high_def hit_low_def Let_def)
       (simp add: asc_def)
  from build_system_prompt_single_marker [of pirate_instance True] c k
  have "length (filter is_critical_section (prompt_parts (7 / 10) False pirate_instance True)) = 1
      \<and> filter is_guidelines_block (prompt_parts (7 / 10) False pirate_instance True) = []
      \<and> count_occ (asc ''CRITICAL'') (build_system_prompt pirate_instance True) = 1
      \<and> \<not> str_contains (asc ''Guidelines:'') (build_system_prompt pirate_instance True)"
    by blast
  moreover from build_system_prompt_single_marker [of memory_instance True] m n
  have "str_contains (asc ''Guidelines:'') (build_system_prompt memory_instance True)"
    by blast
  ultimately show ?thesis using c k j m n by blast
qed

text \<open>
  Without the proviso: an output example that itself uses the word, \<open>Stay CRITICAL of
  cliches\<close>, with \<open>notes\<close> unset. The assembled text contains \<open>CRITICAL\<close> twice, once in the
  header and once in the example copied under it.
\<close>

theorem build_system_prompt_marker_counterexample:
  "cfg_output_example (load_character_config (config_manager critic_instance)) \<noteq> []
   \<and> cfg_notes (load_character_config (config_manager critic_instance)) = []
   \<and> build_system_prompt critic_instance True =
       warning_sign @
       asc '' CRITICAL - Output Example & Performance Requirements (MUST FOLLOW EXACTLY):'' @
       [10] @ asc ''Stay CRITICAL of cliches'' @ [10, 10] @
       asc ''You are a friendly and supportive AI companion.''
   \<and> count_occ (asc ''CRITICAL'') (build_system_prompt critic_instance True) = 2"
  by (simp add: build_system_prompt_def prompt_parts_def critic_instance_def critic_config_def
      directive_parts_def character_parts_def labelled_def fallback_parts_def profile_parts_def
      memory_parts_def guideline_parts_def warning_sign_def Let_def asc_def)


subsection \<open>The retrieved memory\<close>

text \<open>
  C6. In the prompt assembly of \<open>backend/app/main.py\<close> (threshold 0.6), when the memory
  search for the last user message returns two hits with relevance scores 0.8 and 0.55,
  the prompt has exactly one retrieved-memory section, built from the 0.8 hit alone: its
  user snippet and its assistant snippet cut to at most 100 characters, labelled \<open>U:\<close> and
  \<open>A:\<close>.
\<close>

theorem backend_prompt_single_memory:
  assumes "vector_store inst = Some search"
    and "last_user_message (conversation_history inst) \<noteq> []"
    and "search (last_user_message (conversation_history inst)) 2 = [h1, h2]"
    and "relevance_score h1 = 8 / 10"
    and "relevance_score h2 = 55 / 100"
  shows "backend_build_system_prompt inst True =
           py_join [10, 10] (prompt_parts (6 / 10) True inst True)
       \<and> filter is_memory_section (prompt_parts (6 / 10) True inst True) =
           [asc ''Relevant memory:'' @ [10] @
            asc ''U: '' @ take 100 (user_message h1) @ asc ''...'' @ [10] @
            asc ''A: '' @ take 100 (ai_response h1) @ asc ''...'']
       \<and> length (take 100 (user_message h1)) \<le> 100
       \<and> length (take 100 (ai_response h1)) \<le> 100"
proof -
  from assms(2) have "conversation_history inst \<noteq> []"
    by (auto simp: last_user_message_def)
  with assms show ?thesis
    by (simp add: backend_build_system_prompt_def memory_sections memory_parts_def
        memory_text_def Let_def)
qed

theorem backend_prompt_single_memory_witness:
  "vector_store memory_instance = Some two_hit_store
   \<and> last_user_message (conversation_history memory_instance) = asc ''five''
   \<and> two_hit_store (asc ''five'') 2 = [hit_high, hit_low]
   \<and> relevance_score hit_high = 8 / 10
   \<and> relevance_score hit_low = 55 / 100
   \<and> filter is_memory_section (prompt_parts (6 / 10) True memory_instance True) =
       [asc ''Relevant memory:'' @ [10] @
        asc ''U: '' @ replicate 100 97 @ asc ''...'' @ [10] @
        asc ''A: '' @ asc ''Noted.'' @ asc ''...'']"
proof -
  have a: "vector_store memory_instance = Some two_hit_store"
    by (simp add: memory_instance_def)
  have b: "last_user_message (conversation_history memory_instance) = asc ''five''"
    by (simp add: memory_instance_def five_turns_def last_user_message_def user_says_def
        pet_says_def)
  then have b': "last_user_message (conversation_history memory_instance) \<noteq> []"
    by (simp add: asc_def)
  have c: "two_hit_store (last_user_message (conversation_history memory_instance)) 2 =
      [hit_high, hit_low]"
    by (simp add: two_hit_store_def)
  have d: "relevance_score hit_high = 8 / 10" "relevance_score hit_low = 55 / 100"
    by (simp_all add: hit_high_def hit_low_def)
  show ?thesis
    using a b c d backend_prompt_single_memory [OF a b' c d]
    by (simp add: hit_high_def two_hit_store_def asc_def)
qed


section \<open>A failed model call\<close>

lemma on_message_sent_state:
  "pet (fst (on_message_sent e s msg)) =
     (pet s)\<lparr>conversation_history :=
        conversation_history (pet s) @ [\<lparr>role = User, content = msg, proactive = False\<rparr>]\<rparr>"
  "provider_ready (fst (on_message_sent e s msg)) = provider_ready s"
  "chat_ui (fst (on_message_sent e s msg)) = chat_ui s @ [(msg, True)]"
  by (simp_all add: on_message_sent_def save_conversation_history_def Let_def)

lemma desktop_failure:
  assumes "desktop_reply e s msg = Raises error" and "provider_ready s"
  shows "conversation_history (pet (desktop_turn e s msg)) =
           conversation_history (pet s) @
           [\<lparr>role = User, content = msg, proactive = False\<rparr>,
            \<lparr>role = Assistant,
             content = asc ''Sorry, I encountered an error: '' @ asc ''Error: '' @ error,
             proactive = False\<rparr>]"
    and "chat_ui (desktop_turn e s msg) =
           chat_ui s @ [(msg, True),
             (asc ''Sorry, I encountered an error: '' @ asc ''Error: '' @ error, False)]"
    and "ai_provider (pet (desktop_turn e s msg)) = ai_provider (pet s) + 1"
proof -
  obtain s1 messages system_prompt max_tokens
    where sent: "on_message_sent e s msg = (s1, messages, system_prompt, max_tokens)"
    by (metis prod_cases4)
  from sent on_message_sent_state [of e s msg] have s1:
    "pet s1 = (pet s)\<lparr>conversation_history :=
        conversation_history (pet s) @ [\<lparr>role = User, content = msg, proactive = False\<rparr>]\<rparr>"
    "provider_ready s1 = provider_ready s"
    "chat_ui s1 = chat_ui s @ [(msg, True)]"
    by simp_all
  from assms(1) sent have call:
    "env_generate e (ai_provider (pet s1)) messages system_prompt (Some max_tokens) = Raises error"
    by (simp add: desktop_reply_def)
  have run: "ai_worker_run e s1 (messages, system_prompt, max_tokens) =
      (ErrorOccurred (asc ''Error: '' @ error),
       s1\<lparr>pet := (pet s1)\<lparr>ai_provider := ai_provider (pet s1) + 1\<rparr>\<rparr>)"
    using call assms(2) s1(2) by (simp add: ai_worker_run_def)
  have turn: "desktop_turn e s msg =
      on_ai_error e (s1\<lparr>pet := (pet s1)\<lparr>ai_provider := ai_provider (pet s1) + 1\<rparr>\<rparr>)
        (asc ''Error: '' @ error)"
    by (simp add: desktop_turn_def sent run)
  show "conversation_history (pet (desktop_turn e s msg)) =
           conversation_history (pet s) @
           [\<lparr>role = User, content = msg, proactive = False\<rparr>,
            \<lparr>role = Assistant,
             content = asc ''Sorry, I encountered an error: '' @ asc ''Error: '' @ error,
             proactive = False\<rparr>]"
    by (simp add: turn on_ai_error_def save_conversation_history_def Let_def s1)
  show "chat_ui (desktop_turn e s msg) =
           chat_ui s @ [(msg, True),
             (asc ''Sorry, I encountered an error: '' @ asc ''Error: '' @ error, False)]"
    by (simp add: turn on_ai_error_def save_conversation_history_def Let_def s1)
  show "ai_provider (pet (desktop_turn e s msg)) = ai_provider (pet s) + 1"
    by (simp add: turn on_ai_error_def save_conversation_history_def Let_def s1)
qed

lemma server_failure:
  assumes "chat_reply e inst (message request) = Raises error"
  shows "fst (chat e inst request) = HTTPException 500 (asc ''Internal server error: '' @ error)"
    and "conversation_history (snd (chat e inst request)) =
           conversation_history inst @ [\<lparr>role = User, content = message request, proactive = False\<rparr>]"
    and "ai_provider (snd (chat e inst request)) = ai_provider inst + 1"
  using assms by (simp_all add: chat_def Let_def)

text \<open>
  C9 (as the code has it). When the model call of a turn fails, the provider has been
  called exactly once for the turn: nothing is retried. In the desktop application the
  handler appends to the conversation history, after the user's turn and in place of a
  generated response, a synthetic assistant turn carrying the error message, and shows
  the same message in the chat window. In the HTTP server the failure is surfaced as
  \<open>HTTPException(500)\<close> whose detail carries the error text; the server's history ends
  with the user's turn, no assistant turn being appended.
\<close>

theorem model_failure_is_surfaced:
  "(desktop_reply e s msg = Raises error \<and> provider_ready s \<longrightarrow>
      conversation_history (pet (desktop_turn e s msg)) =
        conversation_history (pet s) @
        [\<lparr>role = User, content = msg, proactive = False\<rparr>,
         \<lparr>role = Assistant,
          content = asc ''Sorry, I encountered an error: '' @ asc ''Error: '' @ error,
          proactive = False\<rparr>]
      \<and> chat_ui (desktop_turn e s msg) =
          chat_ui s @ [(msg, True),
            (asc ''Sorry, I encountered an error: '' @ asc ''Error: '' @ error, False)]
      \<and> ai_provider (pet (desktop_turn e s msg)) = ai_provider (pet s) + 1)
   \<and> (chat_reply e inst (message request) = Raises error \<longrightarrow>
      fst (chat e inst request) = HTTPException 500 (asc ''Internal server error: '' @ error)
      \<and> conversation_history (snd (chat e inst request)) =
          conversation_history inst @ [\<lparr>role = User, content = message request, proactive = False\<rparr>]
      \<and> ai_provider (snd (chat e inst request)) = ai_provider inst + 1)"
  using desktop_failure [of e s msg error] server_failure [of e inst request error]
  by blast

theorem model_failure_is_surfaced_witness:
  "desktop_reply failing_env pirate_pet (asc ''hello'') = Raises (asc ''OpenAI API error: timeout'')
   \<and> provider_ready pirate_pet
   \<and> conversation_history (pet (desktop_turn failing_env pirate_pet (asc ''hello''))) =
       [\<lparr>role = User, content = asc ''hello'', proactive = False\<rparr>,
        \<lparr>role = Assistant,
         content = asc ''Sorry, I encountered an error: Error: OpenAI API error: timeout'',
         proactive = False\<rparr>]
   \<and> chat_reply failing_env pirate_instance (message hello_request) =
       Raises (asc ''OpenAI API error: timeout'')
   \<and> fst (chat failing_env pirate_instance hello_request) =
       HTTPException 500 (asc ''Internal server error: OpenAI API error: timeout'')"
proof -
  have d: "desktop_reply failing_env pirate_pet (asc ''hello'') =
      Raises (asc ''OpenAI API error: timeout'')"
    by (simp add: desktop_reply_def on_message_sent_def Let_def failing_env_def
        timeout_provider_def always_replies_def)
  have r: "provider_ready pirate_pet"
    by (simp add: pirate_pet_def)
  have c: "chat_reply failing_env pirate_instance (message hello_request) =
      Raises (asc ''OpenAI API error: timeout'')"
    by (simp add: chat_reply_def Let_def failing_env_def timeout_provider_def always_replies_def)
  have h: "conversation_history (pet pirate_pet) = []"
    by (simp add: pirate_pet_def pirate_instance_def)
  show ?thesis
    using d r c h
      model_failure_is_surfaced [of failing_env pirate_pet "asc ''hello''"
        "asc ''OpenAI API error: timeout''" pirate_instance hello_request]
    by (simp add: asc_def)
qed

text \<open>
  The HTTP server appends no synthetic turn: after the failed call the server's
  history holds the user's turn only, and the answer is the HTTP error.
\<close>

theorem chat_failure_counterexample:
  "conversation_history (snd (chat failing_env pirate_instance hello_request)) =
     [\<lparr>role = User, content = asc ''hello'', proactive = False\<rparr>]
   \<and> fst (chat failing_env pirate_instance hello_request) =
       HTTPException 500 (asc ''Internal server error: OpenAI API error: timeout'')"
  by (simp add: chat_def chat_reply_def Let_def failing_env_def timeout_provider_def
      always_replies_def pirate_instance_def hello_request_def asc_def)

end
